theory Spec2Isabelle
  imports Complex_Main
begin

section \<open>Synthetic chess data generation: a model of scripts/synthesize\_data.py\<close>

text \<open>
  The script drives Blender through its Python interface. The model below follows the
  script function by function. Python floats are idealised as real numbers (no rounding
  error, no NaN or infinity), Python integers are \<open>int\<close>, and the scene of the host
  application is an explicit state that every function takes and returns. Exceptions are
  values of type \<open>error\<close>: a function that may raise returns \<open>error + 'a\<close>.
  Console output (\<open>print\<close>) is not part of the model.
\<close>

subsection \<open>Module constants\<close>

definition CAMERA_STATIC :: bool where
  "CAMERA_STATIC = False"

definition LIGHT_STATIC :: bool where
  "LIGHT_STATIC = True"

definition MIN_BOARD_CORNER_PADDING :: int where
  "MIN_BOARD_CORNER_PADDING = 25"

definition CAMERA_DISTANCE :: int where
  "CAMERA_DISTANCE = 15"

definition BOARD_SIZE :: real where
  "BOARD_SIZE = 16"

definition BOARD_MARGIN :: real where
  "BOARD_MARGIN = 3 / 4"

definition SQUARE_LENGTH :: real where
  "SQUARE_LENGTH = (BOARD_SIZE - 2 * BOARD_MARGIN) / 8"

definition COLLECTION_NAME :: string where
  "COLLECTION_NAME = ''Chess position''"

subsection \<open>Values: vectors, errors, JSON, paths\<close>

type_synonym vec3 = "real \<times> real \<times> real"

definition vx :: "vec3 \<Rightarrow> real" where
  "vx v = fst v"

definition vy :: "vec3 \<Rightarrow> real" where
  "vy v = fst (snd v)"

definition vz :: "vec3 \<Rightarrow> real" where
  "vz v = snd (snd v)"

datatype error = ValueError | AttributeError | KeyError | ZeroDivisionError

text \<open>Unary minus of a \<open>mathutils.Vector\<close>.\<close>

definition vec_neg :: "vec3 \<Rightarrow> vec3" where
  "vec_neg v = (- vx v, - vy v, - vz v)"

text \<open>Division of a \<open>mathutils.Vector\<close> by a scalar; a zero divisor raises.\<close>

definition vec_div :: "vec3 \<Rightarrow> real \<Rightarrow> error + vec3" where
  "vec_div v d = (if d = 0 then Inl ZeroDivisionError else Inr (vx v / d, vy v / d, vz v / d))"

text \<open>What \<open>json.dump\<close> receives: Python dicts keep their insertion order.\<close>

datatype json =
    JNull
  | JBool bool
  | JInt int
  | JNum real
  | JStr string
  | JList "json list"
  | JDict "(string \<times> json) list"

text \<open>A \<open>pathlib.Path\<close>: its parent directory and its final component (\<open>Path.name\<close>).\<close>

record path =
  parent :: string
  filename :: string

text \<open>\<open>str.rfind\<close>: the highest index of the character, or \<open>-1\<close>.\<close>

fun rfind :: "string \<Rightarrow> char \<Rightarrow> int" where
  "rfind [] c = - 1"
| "rfind (x # xs) c =
     (let r = rfind xs c in if 0 \<le> r then r + 1 else if x = c then 0 else - 1)"

text \<open>\<open>Path.stem\<close>: the final component without its last suffix.\<close>

definition stem :: "path \<Rightarrow> string" where
  "stem p =
     (let nm = filename p; i = rfind nm (CHR ''.'')
      in if 0 < i \<and> i < int (length nm) - 1 then take (nat i) nm else nm)"

text \<open>
  Python's \<open>round\<close> with one argument: to the nearest integer, a tie going to the even
  neighbour.
\<close>

definition py_round :: "real \<Rightarrow> int" where
  "py_round x =
     (let f = \<lfloor>x\<rfloor>; d = x - of_int f
      in if d < 1 / 2 then f else if 1 / 2 < d then f + 1 else if even f then f else f + 1)"

text \<open>\<open>np.clip\<close>.\<close>

definition clip :: "real \<Rightarrow> real \<Rightarrow> real \<Rightarrow> real" where
  "clip v lo hi = min (max v lo) hi"

subsection \<open>The chess library: pieces, squares, boards\<close>

datatype piece_type = PAWN | KNIGHT | BISHOP | ROOK | QUEEN | KING

text \<open>\<open>chess.WHITE\<close> is \<open>True\<close>, \<open>chess.BLACK\<close> is \<open>False\<close>.\<close>

record piece =
  color :: bool
  piece_type :: piece_type

text \<open>
  A board as the script reads it: the items of \<open>board.piece_map()\<close> in iteration order
  (squares are numbered 0 to 63) and the string \<open>board.board_fen()\<close>.
\<close>

record board =
  piece_map :: "(nat \<times> piece) list"
  board_fen :: string

definition square_file :: "nat \<Rightarrow> nat" where
  "square_file square = square mod 8"

definition square_rank :: "nat \<Rightarrow> nat" where
  "square_rank square = square div 8"

definition square_name :: "nat \<Rightarrow> string" where
  "square_name square = [''abcdefgh'' ! square_file square, ''12345678'' ! square_rank square]"

definition symbol :: "piece \<Rightarrow> string" where
  "symbol p =
     (if color p
      then (case piece_type p of PAWN \<Rightarrow> ''P'' | KNIGHT \<Rightarrow> ''N'' | BISHOP \<Rightarrow> ''B''
            | ROOK \<Rightarrow> ''R'' | QUEEN \<Rightarrow> ''Q'' | KING \<Rightarrow> ''K'')
      else (case piece_type p of PAWN \<Rightarrow> ''p'' | KNIGHT \<Rightarrow> ''n'' | BISHOP \<Rightarrow> ''b''
            | ROOK \<Rightarrow> ''r'' | QUEEN \<Rightarrow> ''q'' | KING \<Rightarrow> ''k''))"

subsection \<open>The host application: objects, scene, primitives\<close>

text \<open>
  An object of \<open>bpy.data.objects\<close>. \<open>oid\<close> is the identity of the datablock, \<open>points_at\<close>
  the focus its orientation was last aimed at by \<open>point_to\<close>, \<open>energy\<close> the power of a
  light, \<open>mesh\<close> the vertices of its mesh data in local coordinates.
\<close>

record object =
  oid :: nat
  name :: string
  location :: vec3
  rotation_euler :: vec3
  points_at :: "vec3 option"
  hide_render :: bool
  energy :: real
  mesh :: "vec3 list"

text \<open>
  \<open>scene.render\<close>. The host keeps the resolution within 4 to 65536 pixels and the
  percentage within 1 to 32767, so the three numbers are naturals.
\<close>

record render_settings =
  engine :: string
  file_format :: string
  filepath :: path
  resolution_x :: nat
  resolution_y :: nat
  resolution_percentage :: nat

text \<open>
  The calls into the host that the model records, in the order the script makes them:
  \<open>get_corner_coordinates\<close> has projected the corners; \<open>bpy.data.objects.remove\<close>;
  \<open>collection.objects.link\<close>; \<open>get_bounding_box\<close> has evaluated the mesh of an object;
  \<open>json.dump\<close> into the file opened for writing; \<open>bpy.ops.render.render\<close>, which
  writes the image to the file path of the render settings.
\<close>

datatype host_call =
    Corners_projected
  | Object_removed nat
  | Object_linked nat
  | Mesh_evaluated nat
  | File_written path json
  | Rendered path

text \<open>
  The state the script works on: the render settings, the scene camera, the objects of
  \<open>bpy.data.objects\<close>, the collections of \<open>bpy.data.collections\<close> (name to the
  identities of the linked objects), the next datablock identity, the number of random
  numbers drawn so far, and the calls made so far.
\<close>

record scene =
  render :: render_settings
  camera :: object
  objects :: "object list"
  collections :: "string \<rightharpoonup> nat list"
  next_id :: nat
  rng_pos :: nat
  trace :: "host_call list"

text \<open>
  The primitives of the host that the script calls and does not implement:
  \<open>world_to_camera_view\<close> of \<open>bpy_extras.object_utils\<close> for a camera and a world point;
  the four corner vectors of \<open>camera.view_frame\<close>; the vertices of an object's evaluated
  mesh after the two \<open>transform\<close> calls of \<open>get_bounding_box\<close> (camera space); the
  sequence of numbers in [0, 1) that the random generator yields; and the unique name the
  host gives to a copied object.
\<close>

record host =
  world_to_camera_view :: "object \<Rightarrow> vec3 \<Rightarrow> vec3"
  view_frame :: "object \<Rightarrow> vec3 \<times> vec3 \<times> vec3 \<times> vec3"
  camera_space_mesh :: "object \<Rightarrow> object \<Rightarrow> vec3 list"
  random_sample :: "nat \<Rightarrow> real"
  unique_name :: "string list \<Rightarrow> string \<Rightarrow> string"

text \<open>\<open>np.random.uniform(low, high)\<close> and \<open>np.random.rand()\<close>.\<close>

definition uniform :: "host \<Rightarrow> scene \<Rightarrow> real \<Rightarrow> real \<Rightarrow> real \<times> scene" where
  "uniform h s low high =
     (low + (high - low) * random_sample h (rng_pos s), s\<lparr>rng_pos := Suc (rng_pos s)\<rparr>)"

definition rand :: "host \<Rightarrow> scene \<Rightarrow> real \<times> scene" where
  "rand h s = (random_sample h (rng_pos s), s\<lparr>rng_pos := Suc (rng_pos s)\<rparr>)"

definition deg2rad :: "real \<Rightarrow> real" where
  "deg2rad a = a * pi / 180"

text \<open>\<open>bpy.data.objects.get(name)\<close> and \<open>bpy.data.objects[name]\<close>.\<close>

definition objects_get :: "scene \<Rightarrow> string \<Rightarrow> object option" where
  "objects_get s nm = find (\<lambda>ob. name ob = nm) (objects s)"

definition objects_item :: "scene \<Rightarrow> string \<Rightarrow> error + object" where
  "objects_item s nm = (case objects_get s nm of None \<Rightarrow> Inl KeyError | Some ob \<Rightarrow> Inr ob)"

text \<open>An assignment to attributes of the object of that name.\<close>

definition modify_object :: "string \<Rightarrow> (object \<Rightarrow> object) \<Rightarrow> scene \<Rightarrow> scene" where
  "modify_object nm f s =
     s\<lparr>objects := map (\<lambda>ob. if name ob = nm then f ob else ob) (objects s)\<rparr>"

definition collection_objects :: "scene \<Rightarrow> string \<Rightarrow> nat list" where
  "collection_objects s c = (case collections s c of None \<Rightarrow> [] | Some l \<Rightarrow> l)"

definition called :: "host_call \<Rightarrow> scene \<Rightarrow> scene" where
  "called c s = s\<lparr>trace := trace s @ [c]\<rparr>"

subsection \<open>Camera and lights\<close>

text \<open>
  \<open>point_to\<close> turns the object towards the focus and leaves its location as it was.
\<close>

definition point_to :: "object \<Rightarrow> vec3 \<Rightarrow> object" where
  "point_to obj focus = obj\<lparr>points_at := Some focus\<rparr>"

definition setup_camera :: "host \<Rightarrow> scene \<Rightarrow> bool \<Rightarrow> json \<times> scene" where
  "setup_camera h s turn =
     (let board_center = (0, 0, 0);
          (azimuth, s1) = uniform h s 0 360;
          (radius, s2) = uniform h s1 (4 * SQUARE_LENGTH) (10 * SQUARE_LENGTH);
          x = radius * cos (deg2rad azimuth);
          y = radius * sin (deg2rad azimuth);
          (z, s3) = uniform h s2 (8 * SQUARE_LENGTH) (14 * SQUARE_LENGTH);
          loc = (x, y, z);
          s4 = s3\<lparr>camera := point_to ((camera s3)\<lparr>location := loc\<rparr>) board_center\<rparr>
      in (JDict [(''azimuth'', JNum azimuth),
                 (''location'', JList [JNum x, JNum y, JNum z])], s4))"

text \<open>The light is given by its name in \<open>bpy.data.objects\<close>.\<close>

definition setup_spotlight :: "host \<Rightarrow> scene \<Rightarrow> string \<Rightarrow> (string \<times> json) list \<times> scene" where
  "setup_spotlight h s light =
     (let board_center = (0, 0, 0);
          (angle_xy_plane, s1) = uniform h s 0 360;
          (radius, s2) = uniform h s1 (7 * SQUARE_LENGTH) (11 * SQUARE_LENGTH);
          x = radius * cos (deg2rad angle_xy_plane);
          y = radius * sin (deg2rad angle_xy_plane);
          (z, s3) = uniform h s2 (8 * SQUARE_LENGTH) (14 * SQUARE_LENGTH);
          loc = (x, y, z);
          s4 = modify_object light
                 (\<lambda>ob. (point_to (ob\<lparr>location := loc\<rparr>) board_center)\<lparr>energy := 5000\<rparr>) s3
      in ([(''xy_angle'', JNum angle_xy_plane),
           (''focus'', JList [JNum 0, JNum 0, JNum 0]),
           (''location'', JList [JNum x, JNum y, JNum z]),
           (''power'', JNum 5000)], s4))"

definition setup_lighting :: "host \<Rightarrow> scene \<Rightarrow> error + json \<times> scene" where
  "setup_lighting h s =
     (case objects_item s ''Camera flash light'' of Inl e \<Rightarrow> Inl e | Inr flash \<Rightarrow>
      case objects_item s ''Spot 1'' of Inl e \<Rightarrow> Inl e | Inr spot1 \<Rightarrow>
      case objects_item s ''Spot 2'' of Inl e \<Rightarrow> Inl e | Inr spot2 \<Rightarrow>
        (let (r, s1) = rand h s;
             flash_mode = (r < 1 / 2);
             mode = (if flash_mode then ''flash'' else ''spotlights'');
             board_center = (0, 0, 0);
             (u, s2) = uniform h s1 12 16;
             s3 = modify_object (name flash)
                    (\<lambda>ob. (point_to (ob\<lparr>location := (0, 0, u * SQUARE_LENGTH)\<rparr>) board_center)
                             \<lparr>energy := 5000\<rparr>) s2;
             s4 = modify_object (name flash) (\<lambda>ob. ob\<lparr>hide_render := \<not> flash_mode\<rparr>) s3;
             s5 = modify_object (name spot1) (\<lambda>ob. ob\<lparr>hide_render := flash_mode\<rparr>) s4;
             s6 = modify_object (name spot2) (\<lambda>ob. ob\<lparr>hide_render := flash_mode\<rparr>) s5;
             (d1, s7) = setup_spotlight h s6 (name spot1);
             (d2, s8) = setup_spotlight h s7 (name spot2)
         in Inr (JDict [(''mode'', JStr mode),
                        (''flash'', JDict [(''active'', JBool flash_mode), (''power'', JNum 5000)]),
                        (''spot1'', JDict ((''active'', JBool (\<not> flash_mode)) # d1)),
                        (''spot2'', JDict ((''active'', JBool (\<not> flash_mode)) # d2))], s8)))"

subsection \<open>Placing a piece\<close>

text \<open>
  \<open>add_piece\<close> returns the new object, or \<open>None\<close> when the scene has no model of that
  name. The collection is given by its name in \<open>bpy.data.collections\<close>.
\<close>

definition add_piece :: "host \<Rightarrow> scene \<Rightarrow> piece \<Rightarrow> nat \<Rightarrow> string \<Rightarrow> object option \<times> scene" where
  "add_piece h s p square collection =
     (let color_name = (if color p then ''White'' else ''Black'');
          piece_name = (case piece_type p of PAWN \<Rightarrow> ''Pawn'' | KNIGHT \<Rightarrow> ''Knight''
                        | BISHOP \<Rightarrow> ''Bishop'' | ROOK \<Rightarrow> ''Rook'' | QUEEN \<Rightarrow> ''Queen''
                        | KING \<Rightarrow> ''King'');
          nm = color_name @ '' '' @ piece_name;
          file = square_file square;
          rank = square_rank square;
          x = - BOARD_SIZE / 2 + BOARD_MARGIN + (real file + 1 / 2) * SQUARE_LENGTH;
          y = - BOARD_SIZE / 2 + BOARD_MARGIN + (real rank + 1 / 2) * SQUARE_LENGTH;
          loc = (x, y, 0);
          rotation = (0, 0, - 15708 / 10000)
      in case objects_get s nm of
           None \<Rightarrow> (None, s)
         | Some src_obj \<Rightarrow>
             (let obj = src_obj\<lparr>oid := next_id s,
                                name := unique_name h (map name (objects s)) (name src_obj),
                                location := loc,
                                rotation_euler := rotation\<rparr>;
                  s1 = s\<lparr>objects := objects s @ [obj],
                         next_id := Suc (next_id s),
                         collections := (collections s)
                           (collection \<mapsto> collection_objects s collection @ [oid obj])\<rparr>
              in (Some obj, called (Object_linked (oid obj)) s1)))"

subsection \<open>Corner projection\<close>

definition corner_points :: "vec3 list" where
  "corner_points =
     map (\<lambda>(a, b). (a * 4 * SQUARE_LENGTH, b * 4 * SQUARE_LENGTH, 0))
       [(- 1, - 1), (- 1, 1), (1, 1), (1, - 1)]"

text \<open>The rounded pixel position of one corner, before the padding test.\<close>

definition corner_pixel :: "host \<Rightarrow> scene \<Rightarrow> vec3 \<Rightarrow> int \<times> int" where
  "corner_pixel h s corner =
     (let sr = render s;
          v = world_to_camera_view h (camera s) corner;
          x = vx v;
          y = 1 - vy v;
          x = x * (real (resolution_x sr) * real (resolution_percentage sr) * (1 / 100));
          y = y * (real (resolution_y sr) * real (resolution_percentage sr) * (1 / 100))
      in (py_round x, py_round y))"

text \<open>The generator \<open>_get_coords\<close> of \<open>get_corner_coordinates\<close>, run to its end by \<open>list\<close>.\<close>

fun get_coords_corners :: "host \<Rightarrow> scene \<Rightarrow> vec3 list \<Rightarrow> error + (int \<times> int) list" where
  "get_coords_corners h s [] = Inr []"
| "get_coords_corners h s (corner # rest) =
     (case corner_pixel h s corner of (x, y) \<Rightarrow>
        if \<not> (MIN_BOARD_CORNER_PADDING \<le> x
                \<and> x \<le> int (resolution_x (render s)) - MIN_BOARD_CORNER_PADDING)
           \<or> \<not> (MIN_BOARD_CORNER_PADDING \<le> y
                \<and> y \<le> int (resolution_y (render s)) - MIN_BOARD_CORNER_PADDING)
        then Inl ValueError
        else (case get_coords_corners h s rest of
                Inl e \<Rightarrow> Inl e
              | Inr r \<Rightarrow> Inr ((x, y) # r)))"

definition get_corner_coordinates :: "host \<Rightarrow> scene \<Rightarrow> error + (int \<times> int) list option" where
  "get_corner_coordinates h s =
     (case get_coords_corners h s corner_points of
        Inr l \<Rightarrow> Inr (Some l)
      | Inl e \<Rightarrow> if e = ValueError then Inr None else Inl e)"

subsection \<open>Bounding boxes\<close>

text \<open>The list comprehension \<open>[(v / (v.z / z)) for v in frame]\<close>.\<close>

definition scale_frame :: "real \<Rightarrow> vec3 \<times> vec3 \<times> vec3 \<Rightarrow> error + vec3 \<times> vec3 \<times> vec3" where
  "scale_frame z frame =
     (case frame of (f0, f1, f2) \<Rightarrow>
        case vec_div f0 (vz f0 / z) of Inl e \<Rightarrow> Inl e | Inr g0 \<Rightarrow>
        case vec_div f1 (vz f1 / z) of Inl e \<Rightarrow> Inl e | Inr g1 \<Rightarrow>
        case vec_div f2 (vz f2 / z) of Inl e \<Rightarrow> Inl e | Inr g2 \<Rightarrow> Inr (g0, g1, g2))"

text \<open>
  The generator \<open>_get_coords\<close> of \<open>get_bounding_box\<close>. The variable \<open>frame\<close> is
  reassigned at every vertex in front of the camera, so the next vertex starts from the
  rescaled frame.
\<close>

fun get_coords_box :: "vec3 \<times> vec3 \<times> vec3 \<Rightarrow> vec3 list \<Rightarrow> error + (real \<times> real) list" where
  "get_coords_box frame [] = Inr []"
| "get_coords_box frame (co_local # rest) =
     (let z = - vz co_local in
      if z \<le> 0 then get_coords_box frame rest
      else (case scale_frame z frame of
              Inl e \<Rightarrow> Inl e
            | Inr frame' \<Rightarrow>
                (case frame' of (f0, f1, f2) \<Rightarrow>
                   (let min_x = vx f1; max_x = vx f2; min_y = vy f0; max_y = vy f1 in
                    if max_x - min_x = 0 then Inl ZeroDivisionError
                    else if max_y - min_y = 0 then Inl ZeroDivisionError
                    else (let x = (vx co_local - min_x) / (max_x - min_x);
                              y = (vy co_local - min_y) / (max_y - min_y)
                          in case get_coords_box frame' rest of
                               Inl e \<Rightarrow> Inl e
                             | Inr r \<Rightarrow> Inr ((x, y) # r))))))"

definition dim_x :: "scene \<Rightarrow> real" where
  "dim_x s = real (resolution_x (render s)) * (real (resolution_percentage (render s)) * (1 / 100))"

definition dim_y :: "scene \<Rightarrow> real" where
  "dim_y s = real (resolution_y (render s)) * (real (resolution_percentage (render s)) * (1 / 100))"

definition box_min_x :: "(real \<times> real) list \<Rightarrow> real" where
  "box_min_x cs = clip (Min (set (map fst cs))) 0 1"

definition box_max_x :: "(real \<times> real) list \<Rightarrow> real" where
  "box_max_x cs = clip (Max (set (map fst cs))) 0 1"

definition box_min_y :: "(real \<times> real) list \<Rightarrow> real" where
  "box_min_y cs = clip (Min (set (map snd cs))) 0 1"

definition box_max_y :: "(real \<times> real) list \<Rightarrow> real" where
  "box_max_y cs = clip (Max (set (map snd cs))) 0 1"

definition box_width :: "scene \<Rightarrow> (real \<times> real) list \<Rightarrow> int" where
  "box_width s cs = py_round ((box_max_x cs - box_min_x cs) * dim_x s)"

definition box_height :: "scene \<Rightarrow> (real \<times> real) list \<Rightarrow> int" where
  "box_height s cs = py_round ((box_max_y cs - box_min_y cs) * dim_y s)"

text \<open>Line 269: the first three corner vectors of the camera's view frame, negated.\<close>

definition camera_frame :: "host \<Rightarrow> scene \<Rightarrow> vec3 \<times> vec3 \<times> vec3" where
  "camera_frame h s =
     (case view_frame h (camera s) of (a, b, c, d) \<Rightarrow> (vec_neg a, vec_neg b, vec_neg c))"

text \<open>\<open>list(_get_coords())\<close> for the mesh of an object.\<close>

definition object_coords :: "host \<Rightarrow> scene \<Rightarrow> object \<Rightarrow> error + (real \<times> real) list" where
  "object_coords h s ob = get_coords_box (camera_frame h s) (camera_space_mesh h (camera s) ob)"

text \<open>
  \<open>get_bounding_box\<close>. The object is \<open>None\<close> when \<open>add_piece\<close> found no model; the first
  attribute access on it raises. Unpacking the transposed array of an empty coordinate
  list into \<open>xs, ys\<close> raises as well.
\<close>

definition get_bounding_box ::
  "host \<Rightarrow> scene \<Rightarrow> object option \<Rightarrow> error + (int \<times> int \<times> int \<times> int) option" where
  "get_bounding_box h s obj =
     (case obj of
        None \<Rightarrow> Inl AttributeError
      | Some ob \<Rightarrow>
          (case object_coords h s ob of
             Inl e \<Rightarrow> Inl e
           | Inr cs \<Rightarrow>
               if cs = [] then Inl ValueError
               else if box_width s cs = 0 \<or> box_height s cs = 0 then Inr None
               else Inr (Some (py_round (box_min_x cs * dim_x s),
                               py_round (dim_y s - box_max_y cs * dim_y s),
                               py_round ((box_max_x cs - box_min_x cs) * dim_x s),
                               py_round ((box_max_y cs - box_min_y cs) * dim_y s)))))"

subsection \<open>Rendering one board\<close>

text \<open>\<open>bpy.data.objects.remove(obj, do_unlink=True)\<close>.\<close>

definition remove_object :: "nat \<Rightarrow> scene \<Rightarrow> scene" where
  "remove_object i s =
     called (Object_removed i)
       (s\<lparr>objects := filter (\<lambda>ob. oid ob \<noteq> i) (objects s),
          collections := (\<lambda>c. map_option (removeAll i) (collections s c))\<rparr>)"

text \<open>Lines 184 to 187: the collection is created when the scene has none of that name.\<close>

definition ensure_collection :: "scene \<Rightarrow> scene" where
  "ensure_collection s =
     (if collections s COLLECTION_NAME = None
      then s\<lparr>collections := (collections s)(COLLECTION_NAME \<mapsto> [])\<rparr>
      else s)"

text \<open>Lines 190 and 191: every object of the collection is removed.\<close>

definition clear_collection :: "scene \<Rightarrow> scene" where
  "clear_collection s = fold remove_object (collection_objects s COLLECTION_NAME) s"

definition json_box :: "(int \<times> int \<times> int \<times> int) option \<Rightarrow> json" where
  "json_box box =
     (case box of
        None \<Rightarrow> JNull
      | Some (x, y, w, ht) \<Rightarrow> JList [JInt x, JInt y, JInt w, JInt ht])"

definition json_corners :: "(int \<times> int) list option \<Rightarrow> json" where
  "json_corners corner_coords =
     (case corner_coords of
        None \<Rightarrow> JNull
      | Some l \<Rightarrow> JList (map (\<lambda>(x, y). JList [JInt x, JInt y]) l))"

text \<open>Lines 193 to 200: the loop over the items of the piece map.\<close>

fun place_pieces :: "host \<Rightarrow> scene \<Rightarrow> (nat \<times> piece) list \<Rightarrow> error + json list \<times> scene" where
  "place_pieces h s [] = Inr ([], s)"
| "place_pieces h s ((square, p) # rest) =
     (case add_piece h s p square COLLECTION_NAME of (obj, s1) \<Rightarrow>
        case get_bounding_box h s1 obj of
          Inl e \<Rightarrow> Inl e
        | Inr box \<Rightarrow>
            (case place_pieces h
                    (case obj of None \<Rightarrow> s1 | Some ob \<Rightarrow> called (Mesh_evaluated (oid ob)) s1)
                    rest of
               Inl e \<Rightarrow> Inl e
             | Inr (piece_data, s2) \<Rightarrow>
                 Inr (JDict [(''piece'', JStr (symbol p)),
                             (''square'', JStr (square_name square)),
                             (''box'', json_box box)] # piece_data, s2)))"

text \<open>Lines 169 to 174: the render settings.\<close>

definition setup_rendering :: "scene \<Rightarrow> path \<Rightarrow> scene" where
  "setup_rendering s output_file =
     s\<lparr>render := (render s)\<lparr>engine := ''CYCLES'', file_format := ''PNG'',
            filepath := output_file, resolution_x := 1200, resolution_y := 800\<rparr>\<rparr>"

text \<open>
  \<open>render_board\<close>. The dictionaries that \<open>setup_camera\<close> and \<open>setup_lighting\<close>
  return are bound to local variables that nothing reads.
\<close>

definition render_board :: "host \<Rightarrow> scene \<Rightarrow> board \<Rightarrow> bool \<Rightarrow> path \<Rightarrow> error + scene" where
  "render_board h s b turn output_file =
     (let s1 = setup_rendering s output_file;
          s2 = (if CAMERA_STATIC = False then snd (setup_camera h s1 turn) else s1)
      in case (if LIGHT_STATIC = False then map_sum id snd (setup_lighting h s2) else Inr s2) of
           Inl e \<Rightarrow> Inl e
         | Inr s3 \<Rightarrow>
             (case get_corner_coordinates h s3 of
                Inl e \<Rightarrow> Inl e
              | Inr corner_coords \<Rightarrow>
                  (let s4 = called Corners_projected s3;
                       s5 = clear_collection (ensure_collection s4)
                   in case place_pieces h s5 (piece_map b) of
                        Inl e \<Rightarrow> Inl e
                      | Inr (piece_data, s6) \<Rightarrow>
                          (let data = JDict [(''fen'', JStr (board_fen b)),
                                             (''white_turn'', JBool turn),
                                             (''corners'', json_corners corner_coords),
                                             (''pieces'', JList piece_data)];
                               s7 = called (File_written
                                      \<lparr>parent = parent output_file,
                                       filename = stem output_file @ ''.json''\<rparr> data) s6
                           in Inr (called (Rendered (filepath (render s7))) s7)))))"

subsection \<open>What a run leaves behind\<close>

text \<open>The files written and the images rendered, read off the recorded calls.\<close>

fun written_files :: "host_call list \<Rightarrow> (path \<times> json) list" where
  "written_files [] = []"
| "written_files (File_written p d # cs) = (p, d) # written_files cs"
| "written_files (c # cs) = written_files cs"

fun rendered_images :: "host_call list \<Rightarrow> path list" where
  "rendered_images [] = []"
| "rendered_images (Rendered p # cs) = p # rendered_images cs"
| "rendered_images (c # cs) = rendered_images cs"

fun is_written :: "host_call \<Rightarrow> bool" where
  "is_written (File_written p d) = True"
| "is_written c = False"

fun is_rendered :: "host_call \<Rightarrow> bool" where
  "is_rendered (Rendered p) = True"
| "is_rendered c = False"

fun is_linked :: "host_call \<Rightarrow> bool" where
  "is_linked (Object_linked i) = True"
| "is_linked c = False"

fun is_projected :: "host_call \<Rightarrow> bool" where
  "is_projected Corners_projected = True"
| "is_projected c = False"

text \<open>Every call of the first kind comes before every call of the second kind.\<close>

fun all_before :: "(host_call \<Rightarrow> bool) \<Rightarrow> (host_call \<Rightarrow> bool) \<Rightarrow> host_call list \<Rightarrow> bool" where
  "all_before P Q [] = True"
| "all_before P Q (c # cs) = ((\<not> Q c \<or> \<not> list_ex P cs) \<and> all_before P Q cs)"

text \<open>An entry of the \<open>pieces\<close> array for an item of the piece map.\<close>

definition piece_entry :: "nat \<times> piece \<Rightarrow> json \<Rightarrow> bool" where
  "piece_entry sp e = (\<exists>box. e = JDict [(''piece'', JStr (symbol (snd sp))),
                                        (''square'', JStr (square_name (fst sp))),
                                        (''box'', json_box box)])"

text \<open>The keys and the values of a JSON object.\<close>

fun dict_keys :: "json \<Rightarrow> string list" where
  "dict_keys (JDict d) = map fst d"
| "dict_keys j = []"

fun dict_values :: "json \<Rightarrow> json list" where
  "dict_values (JDict d) = map snd d"
| "dict_values j = []"

text \<open>The three light objects that \<open>setup_lighting\<close> works on, as the scene has them.\<close>

definition light_objects :: "scene \<Rightarrow> object option list" where
  "light_objects s = map (objects_get s) [''Camera flash light'', ''Spot 1'', ''Spot 2'']"

subsection \<open>A small scene to run the model on\<close>

text \<open>
  A scene with one piece model, the three lights (all switched off), and one piece left
  in the collection by an earlier sample; a host whose camera looks straight at the board;
  a board with a single white pawn on e2.
\<close>

definition camera0 :: object where
  "camera0 = \<lparr>oid = 0, name = ''Camera'', location = (0, 0, 0), rotation_euler = (0, 0, 0),
     points_at = None, hide_render = False, energy = 0, mesh = []\<rparr>"

definition white_pawn_model :: object where
  "white_pawn_model = \<lparr>oid = 1, name = ''White Pawn'', location = (20, 0, 0),
     rotation_euler = (0, 0, 0), points_at = None, hide_render = False, energy = 0,
     mesh = [(0, 0, 0), (1 / 4, 1 / 8, 0)]\<rparr>"

definition light0 :: "nat \<Rightarrow> string \<Rightarrow> object" where
  "light0 i nm = \<lparr>oid = i, name = nm, location = (0, 0, 10), rotation_euler = (0, 0, 0),
     points_at = None, hide_render = True, energy = 0, mesh = []\<rparr>"

definition stale_piece :: object where
  "stale_piece = \<lparr>oid = 5, name = ''White Pawn.001'', location = (0, 0, 0),
     rotation_euler = (0, 0, 0), points_at = None, hide_render = False, energy = 0,
     mesh = [(0, 0, 0), (1 / 4, 1 / 8, 0)]\<rparr>"

definition far_piece :: object where
  "far_piece = \<lparr>oid = 7, name = ''Black King'', location = (0, 0, 0),
     rotation_euler = (0, 0, 0), points_at = None, hide_render = False, energy = 0,
     mesh = [(0, 0, 2), (1, 1, 1)]\<rparr>"

definition scene0 :: scene where
  "scene0 = \<lparr>render = \<lparr>engine = ''BLENDER_EEVEE'', file_format = ''JPEG'',
                filepath = \<lparr>parent = ''/tmp'', filename = ''''\<rparr>,
                resolution_x = 1920, resolution_y = 1080, resolution_percentage = 100\<rparr>,
     camera = camera0,
     objects = [white_pawn_model, light0 2 ''Camera flash light'', light0 3 ''Spot 1'',
                light0 4 ''Spot 2'', stale_piece],
     collections = [COLLECTION_NAME \<mapsto> [5]],
     next_id = 6, rng_pos = 0, trace = []\<rparr>"

definition host0 :: host where
  "host0 = \<lparr>world_to_camera_view = (\<lambda>cam v. (1 / 2 + vx v / 100, 1 / 2 + vy v / 100, 10)),
     view_frame = (\<lambda>cam. ((1 / 2, 1 / 4, - 1), (1 / 2, - 1 / 4, - 1),
                          (- 1 / 2, - 1 / 4, - 1), (- 1 / 2, 1 / 4, - 1))),
     camera_space_mesh = (\<lambda>cam ob. map (\<lambda>v. (vx v, vy v, vz v - 1)) (mesh ob)),
     random_sample = (\<lambda>n. 0),
     unique_name = (\<lambda>used nm. nm @ ''.001'')\<rparr>"

definition white_pawn :: piece where
  "white_pawn = \<lparr>color = True, piece_type = PAWN\<rparr>"

text \<open>A scene that has the lights and no piece model, and no collection yet.\<close>

definition scene_no_models :: scene where
  "scene_no_models = scene0\<lparr>objects := [light0 2 ''Camera flash light'', light0 3 ''Spot 1'',
                                           light0 4 ''Spot 2''],
                              collections := Map.empty, next_id := 5\<rparr>"

definition board0 :: board where
  "board0 = \<lparr>piece_map = [(12, white_pawn)], board_fen = ''8/8/8/8/8/8/4P3/8''\<rparr>"

definition out0 :: path where
  "out0 = \<lparr>parent = ''../render'', filename = ''0000.png''\<rparr>"

text \<open>The record that the run on this scene writes next to the image.\<close>

definition record0 :: json where
  "record0 = JDict [(''fen'', JStr ''8/8/8/8/8/8/4P3/8''),
                    (''white_turn'', JBool True),
                    (''corners'', JList [JList [JInt 513, JInt 458], JList [JInt 513, JInt 342],
                                         JList [JInt 687, JInt 342], JList [JInt 687, JInt 458]]),
                    (''pieces'', JList [JDict [(''piece'', JStr ''P''),
                                               (''square'', JStr ''e2''),
                                               (''box'', JList [JInt 600, JInt 200, JInt 300,
                                                                JInt 200])]])]"

section \<open>Properties\<close>

lemmas input_defs = host0_def scene0_def camera0_def white_pawn_model_def
  light0_def stale_piece_def far_piece_def white_pawn_def board0_def out0_def
  scene_no_models_def

lemmas geometry_defs = vec_div_def vec_neg_def vx_def vy_def vz_def clip_def py_round_def
  BOARD_SIZE_def BOARD_MARGIN_def SQUARE_LENGTH_def MIN_BOARD_CORNER_PADDING_def

subsection \<open>Corner projection\<close>

lemma get_coords_corners_char:
  "get_coords_corners h s cs =
     (if \<forall>c \<in> set cs. case corner_pixel h s c of (x, y) \<Rightarrow>
            MIN_BOARD_CORNER_PADDING \<le> x
            \<and> x \<le> int (resolution_x (render s)) - MIN_BOARD_CORNER_PADDING
            \<and> MIN_BOARD_CORNER_PADDING \<le> y
            \<and> y \<le> int (resolution_y (render s)) - MIN_BOARD_CORNER_PADDING
      then Inr (map (corner_pixel h s) cs) else Inl ValueError)"
  by (induction cs) (auto split: prod.splits)

text \<open>
  Claim C2. Whatever the camera pose and the resolution, \<open>get_corner_coordinates\<close> raises
  nothing and returns either the four rounded pixel positions of the board corners, every
  one of them inside the padded frame, or \<open>None\<close>, which happens when one of the four
  falls outside the padded frame. It never returns a shorter list.
\<close>

theorem get_corner_coordinates_all_or_none:
  "(get_corner_coordinates h s = Inr (Some (map (corner_pixel h s) corner_points))
      \<and> length (map (corner_pixel h s) corner_points) = 4
      \<and> (\<forall>(x, y) \<in> set (map (corner_pixel h s) corner_points).
            MIN_BOARD_CORNER_PADDING \<le> x
            \<and> x \<le> int (resolution_x (render s)) - MIN_BOARD_CORNER_PADDING
            \<and> MIN_BOARD_CORNER_PADDING \<le> y
            \<and> y \<le> int (resolution_y (render s)) - MIN_BOARD_CORNER_PADDING))
   \<or> (get_corner_coordinates h s = Inr None
      \<and> (\<exists>c \<in> set corner_points. case corner_pixel h s c of (x, y) \<Rightarrow>
            \<not> (MIN_BOARD_CORNER_PADDING \<le> x
                \<and> x \<le> int (resolution_x (render s)) - MIN_BOARD_CORNER_PADDING)
            \<or> \<not> (MIN_BOARD_CORNER_PADDING \<le> y
                \<and> y \<le> int (resolution_y (render s)) - MIN_BOARD_CORNER_PADDING)))"
proof (cases "\<forall>c \<in> set corner_points. case corner_pixel h s c of (x, y) \<Rightarrow>
            MIN_BOARD_CORNER_PADDING \<le> x
            \<and> x \<le> int (resolution_x (render s)) - MIN_BOARD_CORNER_PADDING
            \<and> MIN_BOARD_CORNER_PADDING \<le> y
            \<and> y \<le> int (resolution_y (render s)) - MIN_BOARD_CORNER_PADDING")
  case True
  then have "get_corner_coordinates h s = Inr (Some (map (corner_pixel h s) corner_points))"
    by (simp add: get_corner_coordinates_def get_coords_corners_char)
  moreover have "length (map (corner_pixel h s) corner_points) = 4"
    by (simp add: corner_points_def)
  ultimately show ?thesis using True by auto
next
  case False
  then have "get_corner_coordinates h s = Inr None"
    by (simp add: get_corner_coordinates_def get_coords_corners_char)
  then show ?thesis using False by (auto split: prod.splits)
qed

theorem get_corner_coordinates_all_or_none_witness:
  "get_corner_coordinates host0 scene0
     = Inr (Some (map (corner_pixel host0 scene0) corner_points))
   \<and> map (corner_pixel host0 scene0) corner_points
     = [(821, 618), (821, 462), (1099, 462), (1099, 618)]"
proof -
  show ?thesis
    using get_corner_coordinates_all_or_none [of host0 scene0]
    by (simp add: corner_pixel_def corner_points_def input_defs geometry_defs Let_def)
qed

subsection \<open>Bounding boxes\<close>

lemma py_round_nonneg: "0 \<le> x \<Longrightarrow> 0 \<le> py_round x"
proof -
  assume "0 \<le> x"
  then have "0 \<le> \<lfloor>x\<rfloor>" by simp
  then show ?thesis by (simp add: py_round_def Let_def)
qed

lemma clip_mono: "a \<le> b \<Longrightarrow> clip a lo hi \<le> clip b lo hi"
  by (auto simp: clip_def min_def max_def)

lemma Min_le_Max_list: "xs \<noteq> [] \<Longrightarrow> Min (set xs) \<le> Max (set xs)"
  by (simp add: Min_le_iff)

lemma box_x_ordered: "cs \<noteq> [] \<Longrightarrow> box_min_x cs \<le> box_max_x cs"
  unfolding box_min_x_def box_max_x_def by (rule clip_mono) (simp add: Min_le_iff)

lemma box_y_ordered: "cs \<noteq> [] \<Longrightarrow> box_min_y cs \<le> box_max_y cs"
  unfolding box_min_y_def box_max_y_def by (rule clip_mono) (simp add: Min_le_iff)

lemma dim_x_nonneg: "0 \<le> dim_x s"
  by (simp add: dim_x_def)

lemma dim_y_nonneg: "0 \<le> dim_y s"
  by (simp add: dim_y_def)

lemma box_width_nonneg: "cs \<noteq> [] \<Longrightarrow> 0 \<le> box_width s cs"
  unfolding box_width_def
  by (rule py_round_nonneg) (simp add: box_x_ordered dim_x_nonneg)

lemma box_height_nonneg: "cs \<noteq> [] \<Longrightarrow> 0 \<le> box_height s cs"
  unfolding box_height_def
  by (rule py_round_nonneg) (simp add: box_y_ordered dim_y_nonneg)

text \<open>
  Claim C3. When \<open>get_bounding_box\<close> returns, it returns \<open>None\<close> or a rectangle
  \<open>(x, y, width, height)\<close>. The clipped minimum never exceeds the clipped maximum, the
  rounded width and height are never negative, and the result is \<open>None\<close> exactly when
  the rounded width or the rounded height is zero; a rectangle that is returned has a
  positive width and a positive height.
\<close>

theorem get_bounding_box_result:
  assumes "get_bounding_box h s obj = Inr res"
  shows "\<exists>ob cs. obj = Some ob \<and> object_coords h s ob = Inr cs \<and> cs \<noteq> []
           \<and> box_min_x cs \<le> box_max_x cs \<and> box_min_y cs \<le> box_max_y cs
           \<and> 0 \<le> box_width s cs \<and> 0 \<le> box_height s cs
           \<and> (res = None \<longleftrightarrow> box_width s cs = 0 \<or> box_height s cs = 0)
           \<and> (\<forall>x y w ht. res = Some (x, y, w, ht) \<longrightarrow>
                 w = box_width s cs \<and> ht = box_height s cs \<and> 0 < w \<and> 0 < ht)"
proof -
  from assms obtain ob where ob: "obj = Some ob"
    by (cases obj) (simp_all add: get_bounding_box_def)
  from assms ob obtain cs where cs: "object_coords h s ob = Inr cs"
    by (cases "object_coords h s ob") (simp_all add: get_bounding_box_def)
  from assms ob cs have ne: "cs \<noteq> []"
    by (auto simp: get_bounding_box_def split: if_splits)
  have w: "0 \<le> box_width s cs" and ht: "0 \<le> box_height s cs"
    using ne by (simp_all add: box_width_nonneg box_height_nonneg)
  from assms ob cs ne have res:
    "res = (if box_width s cs = 0 \<or> box_height s cs = 0 then None
            else Some (py_round (box_min_x cs * dim_x s),
                       py_round (dim_y s - box_max_y cs * dim_y s),
                       box_width s cs, box_height s cs))"
    by (auto simp: get_bounding_box_def box_width_def box_height_def split: if_splits)
  have "res = None \<longleftrightarrow> box_width s cs = 0 \<or> box_height s cs = 0"
    using res by simp
  moreover have "\<forall>x y w ht. res = Some (x, y, w, ht) \<longrightarrow>
                 w = box_width s cs \<and> ht = box_height s cs \<and> 0 < w \<and> 0 < ht"
    using res w ht by (auto split: if_splits)
  ultimately show ?thesis
    using ob cs ne w ht box_x_ordered [OF ne] box_y_ordered [OF ne] by blast
qed

theorem get_bounding_box_result_witness:
  "get_bounding_box host0 scene0 (Some white_pawn_model) = Inr (Some (960, 270, 480, 270))
   \<and> (\<exists>cs. object_coords host0 scene0 white_pawn_model = Inr cs
          \<and> box_width scene0 cs = 480 \<and> box_height scene0 cs = 270)"
proof -
  have cs: "object_coords host0 scene0 white_pawn_model = Inr [(1 / 2, 1 / 2), (3 / 4, 3 / 4)]"
    by (simp add: object_coords_def camera_frame_def scale_frame_def input_defs geometry_defs
        Let_def)
  have dims: "dim_x scene0 = 1920" "dim_y scene0 = 1080"
    by (simp_all add: dim_x_def dim_y_def scene0_def)
  have run: "get_bounding_box host0 scene0 (Some white_pawn_model)
               = Inr (Some (960, 270, 480, 270))"
    by (simp add: get_bounding_box_def cs dims box_width_def box_height_def box_min_x_def
        box_max_x_def box_min_y_def box_max_y_def clip_def py_round_def Let_def)
  from get_bounding_box_result [OF run] show ?thesis
    using run cs by auto
qed

lemma get_coords_box_filter:
  "get_coords_box frame vs = get_coords_box frame (filter (\<lambda>co. 0 < - vz co) vs)"
proof (induction vs arbitrary: frame)
  case Nil
  show ?case by simp
next
  case (Cons co vs)
  show ?case
  proof (cases "- vz co \<le> 0")
    case True
    then show ?thesis using Cons.IH [of frame] by simp
  next
    case False
    then show ?thesis
      using Cons.IH by (simp add: Let_def split: sum.splits prod.splits)
  qed
qed

lemma get_coords_box_behind:
  "\<forall>co \<in> set vs. - vz co \<le> 0 \<Longrightarrow> get_coords_box frame vs = Inr []"
  by (induction vs) simp_all

text \<open>
  Claim C9. A vertex whose depth in front of the camera is not positive contributes no
  coordinate: the generator yields what it yields on the remaining vertices. When no vertex
  of the mesh has a positive depth the coordinate list is empty and \<open>get_bounding_box\<close>
  raises instead of returning \<open>None\<close> or a box.
\<close>

theorem get_bounding_box_behind_camera:
  "get_coords_box frame vs = get_coords_box frame (filter (\<lambda>co. 0 < - vz co) vs)
   \<and> ((\<forall>co \<in> set (camera_space_mesh h (camera s) ob). - vz co \<le> 0)
        \<longrightarrow> get_bounding_box h s (Some ob) = Inl ValueError)"
proof
  show "get_coords_box frame vs = get_coords_box frame (filter (\<lambda>co. 0 < - vz co) vs)"
    by (rule get_coords_box_filter)
  show "(\<forall>co \<in> set (camera_space_mesh h (camera s) ob). - vz co \<le> 0)
        \<longrightarrow> get_bounding_box h s (Some ob) = Inl ValueError"
    by (simp add: get_bounding_box_def object_coords_def get_coords_box_behind)
qed

theorem get_bounding_box_behind_camera_witness:
  "camera_space_mesh host0 (camera scene0) far_piece = [(0, 0, 1), (1, 1, 0)]
   \<and> get_bounding_box host0 scene0 (Some far_piece) = Inl ValueError"
proof -
  have m: "camera_space_mesh host0 (camera scene0) far_piece = [(0, 0, 1), (1, 1, 0)]"
    by (simp add: input_defs vx_def vy_def vz_def)
  then have behind: "\<forall>co \<in> set (camera_space_mesh host0 (camera scene0) far_piece). - vz co \<le> 0"
    by (simp add: vz_def)
  with get_bounding_box_behind_camera [of "camera_frame host0 scene0" "[]" host0 scene0 far_piece]
  show ?thesis using m by simp
qed

subsection \<open>Where a piece is placed\<close>

lemma add_piece_Some_location:
  assumes "add_piece h s p square c = (Some ob, s')"
  shows "location ob =
           (- BOARD_SIZE / 2 + BOARD_MARGIN + (real (square_file square) + 1 / 2) * SQUARE_LENGTH,
            - BOARD_SIZE / 2 + BOARD_MARGIN + (real (square_rank square) + 1 / 2) * SQUARE_LENGTH,
            0)"
  using assms by (auto simp: add_piece_def Let_def called_def split: option.splits)

lemma square_coordinate_inj:
  assumes "- BOARD_SIZE / 2 + BOARD_MARGIN + (real i + 1 / 2) * SQUARE_LENGTH
           = - BOARD_SIZE / 2 + BOARD_MARGIN + (real j + 1 / 2) * SQUARE_LENGTH"
  shows "i = j"
  using assms by (simp add: SQUARE_LENGTH_def BOARD_SIZE_def BOARD_MARGIN_def)

lemma square_coordinate_bound:
  assumes "i < 8"
  shows "\<bar>- BOARD_SIZE / 2 + BOARD_MARGIN + (real i + 1 / 2) * SQUARE_LENGTH\<bar>
           < BOARD_SIZE / 2 - BOARD_MARGIN"
proof -
  have "real i \<le> 7" and "0 \<le> real i" using assms by simp_all
  moreover have "- BOARD_SIZE / 2 + BOARD_MARGIN + (real i + 1 / 2) * SQUARE_LENGTH
                 = real i * (29 / 16) - 203 / 32"
    by (simp add: SQUARE_LENGTH_def BOARD_SIZE_def BOARD_MARGIN_def algebra_simps)
  moreover have "BOARD_SIZE / 2 - BOARD_MARGIN = 29 / 4"
    by (simp add: BOARD_SIZE_def BOARD_MARGIN_def)
  ultimately show ?thesis by (simp add: abs_less_iff)
qed

text \<open>
  Claim C10. For a square of the board (numbered below 64, so file and rank are 0 to 7)
  the object that \<open>add_piece\<close> places lies at height 0 with x and y at the centre of
  the square, strictly inside the playing area (absolute value below
  \<open>BOARD_SIZE / 2 - BOARD_MARGIN = 7.25\<close>), and two different squares get two different
  locations.
\<close>

theorem add_piece_square_centre:
  assumes "add_piece h s p square c = (Some ob, s')"
    and "add_piece h' t p' square' c' = (Some ob', t')"
    and "square < 64" and "square' < 64"
  shows "vx (location ob)
           = (- (BOARD_SIZE / 2 - BOARD_MARGIN) + real (square_file square) * SQUARE_LENGTH)
             + SQUARE_LENGTH / 2
         \<and> vy (location ob)
           = (- (BOARD_SIZE / 2 - BOARD_MARGIN) + real (square_rank square) * SQUARE_LENGTH)
             + SQUARE_LENGTH / 2
         \<and> vz (location ob) = 0
         \<and> \<bar>vx (location ob)\<bar> < BOARD_SIZE / 2 - BOARD_MARGIN
         \<and> \<bar>vy (location ob)\<bar> < BOARD_SIZE / 2 - BOARD_MARGIN
         \<and> BOARD_SIZE / 2 - BOARD_MARGIN = 29 / 4
         \<and> (location ob = location ob' \<longrightarrow> square = square')"
proof -
  note loc = add_piece_Some_location [OF assms(1)]
  note loc' = add_piece_Some_location [OF assms(2)]
  have f: "square_file square < 8" and r: "square_rank square < 8"
    using assms(3) by (simp_all add: square_file_def square_rank_def)
  have 1: "vx (location ob)
           = (- (BOARD_SIZE / 2 - BOARD_MARGIN) + real (square_file square) * SQUARE_LENGTH)
             + SQUARE_LENGTH / 2"
    by (simp add: loc vx_def algebra_simps)
  have 2: "vy (location ob)
           = (- (BOARD_SIZE / 2 - BOARD_MARGIN) + real (square_rank square) * SQUARE_LENGTH)
             + SQUARE_LENGTH / 2"
    by (simp add: loc vy_def algebra_simps)
  have 3: "vz (location ob) = 0"
    by (simp add: loc vz_def)
  have 4: "\<bar>vx (location ob)\<bar> < BOARD_SIZE / 2 - BOARD_MARGIN"
    using square_coordinate_bound [OF f] by (simp add: loc vx_def)
  have 5: "\<bar>vy (location ob)\<bar> < BOARD_SIZE / 2 - BOARD_MARGIN"
    using square_coordinate_bound [OF r] by (simp add: loc vy_def)
  have 6: "BOARD_SIZE / 2 - BOARD_MARGIN = 29 / 4"
    by (simp add: BOARD_SIZE_def BOARD_MARGIN_def)
  have 7: "square = square'" if eq: "location ob = location ob'"
  proof -
    from eq have "square_file square = square_file square'"
      and "square_rank square = square_rank square'"
      unfolding loc loc' by (simp_all add: square_coordinate_inj)
    then have "square mod 8 = square' mod 8" and "square div 8 = square' div 8"
      by (simp_all add: square_file_def square_rank_def)
    then show ?thesis by (metis div_mult_mod_eq)
  qed
  from 1 2 3 4 5 6 7 show ?thesis by blast
qed

theorem add_piece_square_centre_witness:
  "\<exists>ob s' ob' t'.
     add_piece host0 scene0 white_pawn 12 COLLECTION_NAME = (Some ob, s')
     \<and> add_piece host0 scene0 white_pawn 13 COLLECTION_NAME = (Some ob', t')
     \<and> location ob = (29 / 32, - (145 / 32), 0)
     \<and> \<bar>vx (location ob)\<bar> < 29 / 4 \<and> \<bar>vy (location ob)\<bar> < 29 / 4
     \<and> location ob \<noteq> location ob'"
proof -
  obtain ob s' where a: "add_piece host0 scene0 white_pawn 12 COLLECTION_NAME = (Some ob, s')"
    by (simp add: add_piece_def objects_get_def input_defs Let_def)
  obtain ob' t' where b: "add_piece host0 scene0 white_pawn 13 COLLECTION_NAME = (Some ob', t')"
    by (simp add: add_piece_def objects_get_def input_defs Let_def)
  have loc: "location ob = (29 / 32, - (145 / 32), 0)"
    using a by (auto simp: add_piece_def objects_get_def input_defs Let_def called_def
        square_file_def square_rank_def BOARD_SIZE_def BOARD_MARGIN_def SQUARE_LENGTH_def)
  from add_piece_square_centre [OF a b] have
    "\<bar>vx (location ob)\<bar> < 29 / 4 \<and> \<bar>vy (location ob)\<bar> < 29 / 4
     \<and> location ob \<noteq> location ob'"
    by auto
  with a b loc show ?thesis by blast
qed

subsection \<open>How each step changes the scene\<close>

lemma remove_object_fields:
  "objects (remove_object i s) = filter (\<lambda>ob. oid ob \<noteq> i) (objects s)"
  "collections (remove_object i s) c = map_option (removeAll i) (collections s c)"
  "trace (remove_object i s) = trace s @ [Object_removed i]"
  "render (remove_object i s) = render s"
  "camera (remove_object i s) = camera s"
  "next_id (remove_object i s) = next_id s"
  "rng_pos (remove_object i s) = rng_pos s"
  by (simp_all add: remove_object_def called_def)

lemma fold_remove_object_objects:
  "objects (fold remove_object l s) = filter (\<lambda>ob. oid ob \<notin> set l) (objects s)"
  by (induction l arbitrary: s) (simp_all add: remove_object_fields conj_commute)

lemma fold_remove_object_collections:
  "collections (fold remove_object l s) c
     = map_option (filter (\<lambda>j. j \<notin> set l)) (collections s c)"
proof (induction l arbitrary: s)
  case Nil
  show ?case by (cases "collections s c") simp_all
next
  case (Cons i l)
  show ?case
    by (cases "collections s c")
       (auto simp: Cons.IH remove_object_fields removeAll_filter_not_eq intro: filter_cong)
qed

lemma fold_remove_object_trace:
  "trace (fold remove_object l s) = trace s @ map Object_removed l"
  by (induction l arbitrary: s) (simp_all add: remove_object_fields)

lemma fold_remove_object_rest:
  "render (fold remove_object l s) = render s"
  "camera (fold remove_object l s) = camera s"
  "next_id (fold remove_object l s) = next_id s"
  "rng_pos (fold remove_object l s) = rng_pos s"
  by (induction l arbitrary: s) (simp_all add: remove_object_fields)

lemma clear_collection_empty:
  "collection_objects (clear_collection s) COLLECTION_NAME = []"
  by (cases "collections s COLLECTION_NAME")
     (simp_all add: clear_collection_def collection_objects_def fold_remove_object_collections)

lemma ensure_collection_fields:
  "collection_objects (ensure_collection s) c = collection_objects s c"
  "objects (ensure_collection s) = objects s"
  "trace (ensure_collection s) = trace s"
  "render (ensure_collection s) = render s"
  "camera (ensure_collection s) = camera s"
  "next_id (ensure_collection s) = next_id s"
  "rng_pos (ensure_collection s) = rng_pos s"
  by (simp_all add: ensure_collection_def collection_objects_def)

lemma clear_collection_fields:
  "objects (clear_collection s)
     = filter (\<lambda>ob. oid ob \<notin> set (collection_objects s COLLECTION_NAME)) (objects s)"
  "trace (clear_collection s)
     = trace s @ map Object_removed (collection_objects s COLLECTION_NAME)"
  "render (clear_collection s) = render s"
  "camera (clear_collection s) = camera s"
  "next_id (clear_collection s) = next_id s"
  "rng_pos (clear_collection s) = rng_pos s"
  by (simp_all add: clear_collection_def fold_remove_object_objects fold_remove_object_trace
      fold_remove_object_rest)

lemma setup_camera_fields:
  "rng_pos (snd (setup_camera h s turn)) = rng_pos s + 3"
  "objects (snd (setup_camera h s turn)) = objects s"
  "collections (snd (setup_camera h s turn)) = collections s"
  "trace (snd (setup_camera h s turn)) = trace s"
  "render (snd (setup_camera h s turn)) = render s"
  "next_id (snd (setup_camera h s turn)) = next_id s"
  by (simp_all add: setup_camera_def uniform_def Let_def)

lemma setup_camera_camera:
  "camera s = camera t \<Longrightarrow> rng_pos s = rng_pos t \<Longrightarrow>
     camera (snd (setup_camera h s turn)) = camera (snd (setup_camera h t turn))"
  by (simp add: setup_camera_def uniform_def Let_def)

lemma add_piece_None:
  "add_piece h s p square c = (None, s') \<Longrightarrow> s' = s"
  by (auto simp: add_piece_def Let_def split: option.splits)

lemma add_piece_Some:
  assumes "add_piece h s p square c = (Some ob, s')"
  shows "oid ob = next_id s"
    and "next_id s' = Suc (next_id s)"
    and "objects s' = objects s @ [ob]"
    and "collection_objects s' c = collection_objects s c @ [next_id s]"
    and "trace s' = trace s @ [Object_linked (next_id s)]"
    and "render s' = render s"
    and "camera s' = camera s"
    and "rng_pos s' = rng_pos s"
  using assms
  by (auto simp: add_piece_def Let_def called_def collection_objects_def split: option.splits)

lemma get_bounding_box_None: "get_bounding_box h s None = Inl AttributeError"
  by (simp add: get_bounding_box_def)

lemma called_fields:
  "trace (called c s) = trace s @ [c]"
  "objects (called c s) = objects s"
  "collections (called c s) = collections s"
  "collection_objects (called c s) nm = collection_objects s nm"
  "render (called c s) = render s"
  "camera (called c s) = camera s"
  "next_id (called c s) = next_id s"
  "rng_pos (called c s) = rng_pos s"
  by (simp_all add: called_def collection_objects_def)

lemma place_pieces_ConsE:
  assumes "place_pieces h s ((square, p) # rest) = Inr (pd, s')"
  obtains ob s1 box pd' where
    "add_piece h s p square COLLECTION_NAME = (Some ob, s1)"
    "get_bounding_box h s1 (Some ob) = Inr box"
    "place_pieces h (called (Mesh_evaluated (oid ob)) s1) rest = Inr (pd', s')"
    "pd = JDict [(''piece'', JStr (symbol p)), (''square'', JStr (square_name square)),
                 (''box'', json_box box)] # pd'"
proof -
  obtain obj s1 where a: "add_piece h s p square COLLECTION_NAME = (obj, s1)"
    by (cases "add_piece h s p square COLLECTION_NAME")
  from assms a obtain box where b: "get_bounding_box h s1 obj = Inr box"
    by (cases "get_bounding_box h s1 obj") simp_all
  then obtain ob where ob: "obj = Some ob"
    by (cases obj) (simp_all add: get_bounding_box_None)
  from assms a b ob obtain pd' where
    r: "place_pieces h (called (Mesh_evaluated (oid ob)) s1) rest = Inr (pd', s')"
    and pd: "pd = JDict [(''piece'', JStr (symbol p)), (''square'', JStr (square_name square)),
                 (''box'', json_box box)] # pd'"
    by (cases "place_pieces h (called (Mesh_evaluated (oid ob)) s1) rest") auto
  from a b r pd ob that show thesis by blast
qed

lemma place_pieces_Inr:
  assumes "place_pieces h s ps = Inr (pd, s')"
  shows "next_id s' = next_id s + length ps
    \<and> collection_objects s' COLLECTION_NAME
        = collection_objects s COLLECTION_NAME @ [next_id s ..< next_id s + length ps]
    \<and> trace s' = trace s @ concat (map (\<lambda>i. [Object_linked i, Mesh_evaluated i])
                                      [next_id s ..< next_id s + length ps])
    \<and> render s' = render s \<and> camera s' = camera s \<and> rng_pos s' = rng_pos s
    \<and> (\<exists>new. objects s' = objects s @ new
              \<and> map oid new = [next_id s ..< next_id s + length ps])
    \<and> list_all2 piece_entry ps pd"
  using assms
proof (induction ps arbitrary: s pd s')
  case Nil
  then show ?case by simp
next
  case (Cons sp rest)
  obtain square p where sp: "sp = (square, p)" by (cases sp)
  from Cons.prems [unfolded sp] obtain ob s1 box pd' where
    a: "add_piece h s p square COLLECTION_NAME = (Some ob, s1)"
    and r: "place_pieces h (called (Mesh_evaluated (oid ob)) s1) rest = Inr (pd', s')"
    and pd: "pd = JDict [(''piece'', JStr (symbol p)), (''square'', JStr (square_name square)),
                 (''box'', json_box box)] # pd'"
    by (rule place_pieces_ConsE)
  note A = add_piece_Some [OF a]
  note IH = Cons.IH [OF r, unfolded called_fields A]
  have upt: "[next_id s ..< next_id s + length (sp # rest)]
               = next_id s # [Suc (next_id s) ..< Suc (next_id s) + length rest]"
    by (simp add: upt_rec)
  from IH obtain new where new: "objects s' = (objects s @ [ob]) @ new"
    "map oid new = [Suc (next_id s) ..< Suc (next_id s) + length rest]"
    by blast
  have "objects s' = objects s @ (ob # new)
        \<and> map oid (ob # new) = [next_id s ..< next_id s + length (sp # rest)]"
    using new A(1) upt by simp
  then have ex: "\<exists>new. objects s' = objects s @ new
              \<and> map oid new = [next_id s ..< next_id s + length (sp # rest)]"
    by blast
  have e: "piece_entry sp (JDict [(''piece'', JStr (symbol p)),
             (''square'', JStr (square_name square)), (''box'', json_box box)])"
    by (auto simp: piece_entry_def sp)
  show ?case
    using IH ex e unfolding upt pd by simp
qed

subsection \<open>One run of \<open>render_board\<close>\<close>

lemma setup_rendering_fields:
  "filepath (render (setup_rendering s out)) = out"
  "resolution_x (render (setup_rendering s out)) = 1200"
  "resolution_y (render (setup_rendering s out)) = 800"
  "resolution_percentage (render (setup_rendering s out)) = resolution_percentage (render s)"
  "objects (setup_rendering s out) = objects s"
  "collections (setup_rendering s out) = collections s"
  "collection_objects (setup_rendering s out) c = collection_objects s c"
  "trace (setup_rendering s out) = trace s"
  "camera (setup_rendering s out) = camera s"
  "next_id (setup_rendering s out) = next_id s"
  "rng_pos (setup_rendering s out) = rng_pos s"
  by (simp_all add: setup_rendering_def collection_objects_def)

lemma setup_camera_collection:
  "collection_objects (snd (setup_camera h s turn)) c = collection_objects s c"
  by (simp add: collection_objects_def setup_camera_fields)

lemma render_board_Inr:
  assumes "render_board h s b turn out = Inr s'"
  obtains cc pd s6 where
    "get_corner_coordinates h (snd (setup_camera h (setup_rendering s out) turn)) = Inr cc"
    "place_pieces h
       (clear_collection (ensure_collection
          (called Corners_projected (snd (setup_camera h (setup_rendering s out) turn)))))
       (piece_map b) = Inr (pd, s6)"
    "s' = called (Rendered out)
            (called (File_written \<lparr>parent = parent out, filename = stem out @ ''.json''\<rparr>
                       (JDict [(''fen'', JStr (board_fen b)),
                               (''white_turn'', JBool turn),
                               (''corners'', json_corners cc),
                               (''pieces'', JList pd)])) s6)"
proof -
  let ?s3 = "snd (setup_camera h (setup_rendering s out) turn)"
  let ?s5 = "clear_collection (ensure_collection (called Corners_projected ?s3))"
  from assms obtain cc where cc: "get_corner_coordinates h ?s3 = Inr cc"
    by (cases "get_corner_coordinates h ?s3")
       (simp_all add: render_board_def CAMERA_STATIC_def LIGHT_STATIC_def Let_def)
  from assms cc obtain pd s6 where pp: "place_pieces h ?s5 (piece_map b) = Inr (pd, s6)"
    by (cases "place_pieces h ?s5 (piece_map b)")
       (auto simp: render_board_def CAMERA_STATIC_def LIGHT_STATIC_def Let_def)
  have "render s6 = render ?s5"
    using place_pieces_Inr [OF pp] by simp
  then have fp: "filepath (render s6) = out"
    by (simp add: clear_collection_fields ensure_collection_fields called_fields
        setup_camera_fields setup_rendering_fields)
  from assms cc pp fp have
    "s' = called (Rendered out)
            (called (File_written \<lparr>parent = parent out, filename = stem out @ ''.json''\<rparr>
                       (JDict [(''fen'', JStr (board_fen b)),
                               (''white_turn'', JBool turn),
                               (''corners'', json_corners cc),
                               (''pieces'', JList pd)])) s6)"
    by (simp add: render_board_def CAMERA_STATIC_def LIGHT_STATIC_def Let_def called_fields)
  with cc pp that show thesis by blast
qed

lemma written_files_append:
  "written_files (xs @ ys) = written_files xs @ written_files ys"
  by (induction xs rule: written_files.induct) simp_all

lemma rendered_images_append:
  "rendered_images (xs @ ys) = rendered_images xs @ rendered_images ys"
  by (induction xs rule: rendered_images.induct) simp_all

lemma written_files_removed: "written_files (map Object_removed l) = []"
  by (induction l) simp_all

lemma rendered_images_removed: "rendered_images (map Object_removed l) = []"
  by (induction l) simp_all

lemma written_files_pieces:
  "written_files (concat (map (\<lambda>i. [Object_linked i, Mesh_evaluated i]) l)) = []"
  by (induction l) simp_all

lemma rendered_images_pieces:
  "rendered_images (concat (map (\<lambda>i. [Object_linked i, Mesh_evaluated i]) l)) = []"
  by (induction l) simp_all

lemma render_board_trace:
  assumes "render_board h s b turn out = Inr s'"
  shows "\<exists>data. trace s' = trace s @ [Corners_projected]
           @ map Object_removed (collection_objects s COLLECTION_NAME)
           @ concat (map (\<lambda>i. [Object_linked i, Mesh_evaluated i])
                       [next_id s ..< next_id s + length (piece_map b)])
           @ [File_written \<lparr>parent = parent out, filename = stem out @ ''.json''\<rparr> data,
              Rendered out]"
proof -
  from assms obtain cc pd s6 where
    pp: "place_pieces h
       (clear_collection (ensure_collection
          (called Corners_projected (snd (setup_camera h (setup_rendering s out) turn)))))
       (piece_map b) = Inr (pd, s6)"
    and s': "s' = called (Rendered out)
            (called (File_written \<lparr>parent = parent out, filename = stem out @ ''.json''\<rparr>
                       (JDict [(''fen'', JStr (board_fen b)),
                               (''white_turn'', JBool turn),
                               (''corners'', json_corners cc),
                               (''pieces'', JList pd)])) s6)"
    by (rule render_board_Inr)
  have "trace s6 = trace s @ [Corners_projected]
           @ map Object_removed (collection_objects s COLLECTION_NAME)
           @ concat (map (\<lambda>i. [Object_linked i, Mesh_evaluated i])
                       [next_id s ..< next_id s + length (piece_map b)])"
    using place_pieces_Inr [OF pp]
    by (simp add: clear_collection_fields ensure_collection_fields called_fields
        setup_camera_fields setup_camera_collection setup_rendering_fields)
  then show ?thesis by (simp add: s' called_fields)
qed

lemmas model_defs = render_board_def setup_rendering_def setup_camera_def uniform_def
  deg2rad_def point_to_def
  get_corner_coordinates_def corner_points_def corner_pixel_def
  ensure_collection_def clear_collection_def collection_objects_def remove_object_def called_def
  add_piece_def objects_get_def square_file_def square_rank_def square_name_def symbol_def
  get_bounding_box_def object_coords_def camera_frame_def scale_frame_def
  box_width_def box_height_def box_min_x_def box_max_x_def box_min_y_def box_max_y_def
  dim_x_def dim_y_def json_box_def json_corners_def stem_def
  CAMERA_STATIC_def LIGHT_STATIC_def COLLECTION_NAME_def Let_def

text \<open>The run on the small scene.\<close>

lemma run0:
  "\<exists>s'. render_board host0 scene0 board0 True out0 = Inr s'
     \<and> trace s' = [Corners_projected, Object_removed 5, Object_linked 6, Mesh_evaluated 6,
                   File_written \<lparr>parent = ''../render'', filename = ''0000.json''\<rparr> record0,
                   Rendered out0]
     \<and> rng_pos s' = 3
     \<and> collection_objects s' COLLECTION_NAME = [6]
     \<and> map oid (objects s') = [1, 2, 3, 4, 6]
     \<and> light_objects s' = [Some (light0 2 ''Camera flash light''), Some (light0 3 ''Spot 1''),
                            Some (light0 4 ''Spot 2'')]
     \<and> location (camera s') = (29 / 4, 0, 29 / 2)"
  by (simp add: model_defs input_defs geometry_defs record0_def light_objects_def)

subsection \<open>A piece without a model\<close>

text \<open>
  Claim C1 says that a piece whose model is missing from the scene is logged and skipped,
  the remaining pieces are processed and no exception leaves \<open>render_board\<close>. The code
  departs from it: \<open>add_piece\<close> returns \<open>None\<close>, \<open>render_board\<close> hands that
  \<open>None\<close> to \<open>get_bounding_box\<close>, and the attribute access there raises. On a scene
  without the model ``White Pawn'' and a board with one white pawn the run ends with
  that exception; nothing is written and nothing is rendered.
\<close>

theorem render_board_missing_model:
  "render_board host0 scene_no_models board0 True out0 = Inl AttributeError"
  by (simp add: model_defs input_defs geometry_defs)

subsection \<open>The record written for a sample\<close>

lemma rfind_absent: "c \<notin> set xs \<Longrightarrow> rfind xs c = - 1"
  by (induction xs) (auto simp: Let_def)

lemma rfind_last: "c \<notin> set ys \<Longrightarrow> rfind (xs @ c # ys) c = int (length xs)"
  by (induction xs) (simp_all add: Let_def rfind_absent)

lemma stem_nonempty: "filename p \<noteq> [] \<Longrightarrow> stem p \<noteq> []"
  by (auto simp: stem_def Let_def)

lemma stem_json:
  assumes "filename p \<noteq> []"
  shows "stem \<lparr>parent = d, filename = stem p @ ''.json''\<rparr> = stem p"
proof -
  have "rfind (stem p @ CHR ''.'' # ''json'') (CHR ''.'') = int (length (stem p))"
    by (rule rfind_last) simp
  moreover have "0 < length (stem p)"
    using stem_nonempty [OF assms] by simp
  ultimately show ?thesis
    by (simp add: stem_def [of "\<lparr>parent = d, filename = stem p @ ''.json''\<rparr>"] Let_def)
qed

lemma get_bounding_box_cong:
  assumes "render s = render t" and "camera s = camera t"
  shows "get_bounding_box h s obj = get_bounding_box h t obj"
proof -
  have c: "object_coords h s = object_coords h t"
    by (simp add: object_coords_def camera_frame_def assms fun_eq_iff)
  have d: "dim_x s = dim_x t" "dim_y s = dim_y t"
    by (simp_all add: dim_x_def dim_y_def assms)
  have w: "box_width s = box_width t" "box_height s = box_height t"
    by (simp_all add: box_width_def box_height_def d fun_eq_iff)
  show ?thesis
    unfolding get_bounding_box_def c d w ..
qed

lemma place_pieces_nth:
  assumes "place_pieces h s ps = Inr (pd, s')" and "i < length ps"
  shows "\<exists>pdi si si' box.
           place_pieces h s (take i ps) = Inr (pdi, si)
         \<and> add_piece h si (snd (ps ! i)) (fst (ps ! i)) COLLECTION_NAME
             = (Some (objects s' ! (length (objects s) + i)), si')
         \<and> get_bounding_box h si' (Some (objects s' ! (length (objects s) + i))) = Inr box
         \<and> pd ! i = JDict [(''piece'', JStr (symbol (snd (ps ! i)))),
                            (''square'', JStr (square_name (fst (ps ! i)))),
                            (''box'', json_box box)]"
  using assms
proof (induction ps arbitrary: s pd i)
  case Nil
  then show ?case by simp
next
  case (Cons sp rest)
  obtain square p where sp: "sp = (square, p)" by (cases sp)
  from Cons.prems(1) [unfolded sp] obtain ob s1 box pd' where
    a: "add_piece h s p square COLLECTION_NAME = (Some ob, s1)"
    and g: "get_bounding_box h s1 (Some ob) = Inr box"
    and r: "place_pieces h (called (Mesh_evaluated (oid ob)) s1) rest = Inr (pd', s')"
    and pd: "pd = JDict [(''piece'', JStr (symbol p)), (''square'', JStr (square_name square)),
                 (''box'', json_box box)] # pd'"
    by (rule place_pieces_ConsE)
  note A = add_piece_Some [OF a]
  from place_pieces_Inr [OF r] obtain new where
    new: "objects s' = (objects s @ [ob]) @ new"
    by (auto simp: called_fields A)
  show ?case
  proof (cases i)
    case 0
    have "objects s' ! length (objects s) = ob"
      by (simp add: new nth_append)
    with a g show ?thesis
      by (simp add: 0 sp pd)
  next
    case (Suc j)
    with Cons.prems(2) have j: "j < length rest" by simp
    from Cons.IH [OF r j] obtain pdj sj sj' boxj where
      t: "place_pieces h (called (Mesh_evaluated (oid ob)) s1) (take j rest) = Inr (pdj, sj)"
      and aj: "add_piece h sj (snd (rest ! j)) (fst (rest ! j)) COLLECTION_NAME
             = (Some (objects s' ! (length (objects (called (Mesh_evaluated (oid ob)) s1)) + j)),
                sj')"
      and gj: "get_bounding_box h sj'
                 (Some (objects s' ! (length (objects (called (Mesh_evaluated (oid ob)) s1)) + j)))
               = Inr boxj"
      and ej: "pd' ! j = JDict [(''piece'', JStr (symbol (snd (rest ! j)))),
                            (''square'', JStr (square_name (fst (rest ! j)))),
                            (''box'', json_box boxj)]"
      by blast
    have len: "length (objects (called (Mesh_evaluated (oid ob)) s1)) + j
                 = length (objects s) + i"
      by (simp add: called_fields A Suc)
    have pre: "place_pieces h s (take i (sp # rest))
                 = Inr (JDict [(''piece'', JStr (symbol p)),
                               (''square'', JStr (square_name square)),
                               (''box'', json_box box)] # pdj, sj)"
      by (simp add: Suc sp a g t)
    from pre aj gj ej show ?thesis
      unfolding len by (simp add: Suc pd)
  qed
qed

lemma stem_png:
  assumes "base \<noteq> []" and "filename p = base @ ''.png''"
  shows "stem p = base"
proof -
  have "rfind (base @ CHR ''.'' # ''png'') (CHR ''.'') = int (length base)"
    by (rule rfind_last) simp
  then show ?thesis
    using assms by (simp add: stem_def Let_def)
qed

text \<open>
  Claim C5. A run of \<open>render_board\<close> that completes writes exactly one JSON file and
  hands exactly one image path, the output file, to the renderer. The JSON file lies in
  the directory of the output file and is named by the stem of its name followed by
  \<open>.json\<close>, so the two base names agree (for a name that is not empty; for an output
  file \<open>base.png\<close> the JSON file is \<open>base.json\<close>). The record has exactly the
  entries \<open>fen\<close>, \<open>white_turn\<close>, \<open>corners\<close> and \<open>pieces\<close>. Its \<open>corners\<close> are
  what \<open>get_corner_coordinates\<close> returns for the camera pose sampled in this run (the
  list or null). Its \<open>pieces\<close> array has one entry per item of the piece map, in
  order, holding the piece symbol, the square name, and as \<open>box\<close> what
  \<open>get_bounding_box\<close> returns, at that pose, for the object that \<open>add_piece\<close>
  placed for this item (the rectangle or null).
\<close>

theorem render_board_writes_record:
  fixes h s b turn out
  defines "posed \<equiv> snd (setup_camera h (setup_rendering s out) turn)"
  defines "cleared \<equiv> clear_collection (ensure_collection (called Corners_projected posed))"
  assumes "render_board h s b turn out = Inr s'"
  shows "\<exists>cc pd s6 new.
           get_corner_coordinates h posed = Inr cc
         \<and> place_pieces h cleared (piece_map b) = Inr (pd, s6)
         \<and> written_files (trace s') = written_files (trace s)
             @ [(\<lparr>parent = parent out, filename = stem out @ ''.json''\<rparr>,
                 JDict [(''fen'', JStr (board_fen b)),
                        (''white_turn'', JBool turn),
                        (''corners'', json_corners cc),
                        (''pieces'', JList pd)])]
         \<and> objects s' = objects cleared @ new
         \<and> length new = length (piece_map b)
         \<and> length pd = length (piece_map b)
         \<and> (\<forall>i < length (piece_map b). \<exists>pdi si si' box.
               place_pieces h cleared (take i (piece_map b)) = Inr (pdi, si)
             \<and> add_piece h si (snd (piece_map b ! i)) (fst (piece_map b ! i)) COLLECTION_NAME
                 = (Some (new ! i), si')
             \<and> get_bounding_box h si' (Some (new ! i)) = Inr box
             \<and> get_bounding_box h posed (Some (new ! i)) = Inr box
             \<and> pd ! i = JDict [(''piece'', JStr (symbol (snd (piece_map b ! i)))),
                                (''square'', JStr (square_name (fst (piece_map b ! i)))),
                                (''box'', json_box box)])
         \<and> list_all2 (\<lambda>sp e. \<exists>box. e = JDict [(''piece'', JStr (symbol (snd sp))),
                                                (''square'', JStr (square_name (fst sp))),
                                                (''box'', json_box box)]) (piece_map b) pd
         \<and> rendered_images (trace s') = rendered_images (trace s) @ [out]
         \<and> (filename out \<noteq> [] \<longrightarrow>
               stem \<lparr>parent = parent out, filename = stem out @ ''.json''\<rparr> = stem out)
         \<and> (\<forall>base. base \<noteq> [] \<and> filename out = base @ ''.png'' \<longrightarrow>
               stem out @ ''.json'' = base @ ''.json'')"
proof -
  from assms(3) obtain cc pd s6 where
    cc: "get_corner_coordinates h posed = Inr cc"
    and pp: "place_pieces h cleared (piece_map b) = Inr (pd, s6)"
    and s': "s' = called (Rendered out)
            (called (File_written \<lparr>parent = parent out, filename = stem out @ ''.json''\<rparr>
                       (JDict [(''fen'', JStr (board_fen b)),
                               (''white_turn'', JBool turn),
                               (''corners'', json_corners cc),
                               (''pieces'', JList pd)])) s6)"
    unfolding posed_def cleared_def by (rule render_board_Inr)
  note P = place_pieces_Inr [OF pp]
  have rc: "render cleared = render posed" "camera cleared = camera posed"
    by (simp_all add: cleared_def clear_collection_fields ensure_collection_fields called_fields)
  have tr: "trace s6 = trace s @ [Corners_projected]
           @ map Object_removed (collection_objects s COLLECTION_NAME)
           @ concat (map (\<lambda>i. [Object_linked i, Mesh_evaluated i])
                       [next_id s ..< next_id s + length (piece_map b)])"
    using P
    by (simp add: cleared_def posed_def clear_collection_fields ensure_collection_fields
        called_fields setup_camera_fields setup_camera_collection setup_rendering_fields)
  have w6: "written_files (trace s6) = written_files (trace s)"
    by (simp add: tr written_files_append written_files_removed written_files_pieces)
  have r6: "rendered_images (trace s6) = rendered_images (trace s)"
    by (simp add: tr rendered_images_append rendered_images_removed rendered_images_pieces)
  have w: "written_files (trace s') = written_files (trace s)
             @ [(\<lparr>parent = parent out, filename = stem out @ ''.json''\<rparr>,
                 JDict [(''fen'', JStr (board_fen b)),
                        (''white_turn'', JBool turn),
                        (''corners'', json_corners cc),
                        (''pieces'', JList pd)])]"
    by (simp add: s' called_fields written_files_append w6)
  have r: "rendered_images (trace s') = rendered_images (trace s) @ [out]"
    by (simp add: s' called_fields rendered_images_append r6)
  from P obtain new where new6: "objects s6 = objects cleared @ new"
    and ids: "map oid new = [next_id cleared ..< next_id cleared + length (piece_map b)]"
    by blast
  have new: "objects s' = objects cleared @ new"
    by (simp add: s' called_fields new6)
  have ln: "length new = length (piece_map b)"
    using arg_cong [OF ids, of length] by simp
  have e: "list_all2 (\<lambda>sp e. \<exists>box. e = JDict [(''piece'', JStr (symbol (snd sp))),
                                                (''square'', JStr (square_name (fst sp))),
                                                (''box'', json_box box)]) (piece_map b) pd"
    using P by (simp add: piece_entry_def [abs_def])
  then have lp: "length pd = length (piece_map b)"
    by (simp add: list_all2_lengthD)
  have each: "\<exists>pdi si si' box.
               place_pieces h cleared (take i (piece_map b)) = Inr (pdi, si)
             \<and> add_piece h si (snd (piece_map b ! i)) (fst (piece_map b ! i)) COLLECTION_NAME
                 = (Some (new ! i), si')
             \<and> get_bounding_box h si' (Some (new ! i)) = Inr box
             \<and> get_bounding_box h posed (Some (new ! i)) = Inr box
             \<and> pd ! i = JDict [(''piece'', JStr (symbol (snd (piece_map b ! i)))),
                                (''square'', JStr (square_name (fst (piece_map b ! i)))),
                                (''box'', json_box box)]"
    if i: "i < length (piece_map b)" for i
  proof -
    have nth: "objects s6 ! (length (objects cleared) + i) = new ! i"
      by (simp add: new6)
    from place_pieces_nth [OF pp i, unfolded nth] obtain pdi si si' box where
      t: "place_pieces h cleared (take i (piece_map b)) = Inr (pdi, si)"
      and a: "add_piece h si (snd (piece_map b ! i)) (fst (piece_map b ! i)) COLLECTION_NAME
                 = (Some (new ! i), si')"
      and g: "get_bounding_box h si' (Some (new ! i)) = Inr box"
      and p: "pd ! i = JDict [(''piece'', JStr (symbol (snd (piece_map b ! i)))),
                                (''square'', JStr (square_name (fst (piece_map b ! i)))),
                                (''box'', json_box box)]"
      by blast
    have "render si' = render posed" "camera si' = camera posed"
      using place_pieces_Inr [OF t] add_piece_Some [OF a] rc by simp_all
    then have "get_bounding_box h posed (Some (new ! i)) = get_bounding_box h si' (Some (new ! i))"
      by (intro get_bounding_box_cong) simp_all
    with t a g p show ?thesis by auto
  qed
  have st: "filename out \<noteq> [] \<longrightarrow>
               stem \<lparr>parent = parent out, filename = stem out @ ''.json''\<rparr> = stem out"
    by (simp add: stem_json)
  have png: "\<forall>base. base \<noteq> [] \<and> filename out = base @ ''.png'' \<longrightarrow>
               stem out @ ''.json'' = base @ ''.json''"
    by (auto dest: stem_png)
  from cc pp w new ln lp each e r st png show ?thesis by blast
qed

theorem render_board_writes_record_witness:
  "\<exists>s'. render_board host0 scene0 board0 True out0 = Inr s'
     \<and> written_files (trace s') = [(\<lparr>parent = ''../render'', filename = ''0000.json''\<rparr>, record0)]
     \<and> rendered_images (trace s') = [out0]
     \<and> stem \<lparr>parent = ''../render'', filename = ''0000.json''\<rparr> = stem out0
     \<and> get_corner_coordinates host0 (snd (setup_camera host0 (setup_rendering scene0 out0) True))
         = Inr (Some [(513, 458), (513, 342), (687, 342), (687, 458)])"
proof -
  from run0 obtain s' where ok: "render_board host0 scene0 board0 True out0 = Inr s'"
    and tr: "trace s' = [Corners_projected, Object_removed 5, Object_linked 6, Mesh_evaluated 6,
                   File_written \<lparr>parent = ''../render'', filename = ''0000.json''\<rparr> record0,
                   Rendered out0]"
    by auto
  have nm: "filename out0 \<noteq> []" "parent out0 = ''../render''" "stem out0 = ''0000''"
    by (simp_all add: out0_def stem_def)
  from render_board_writes_record [OF ok] obtain cc pd where
    c: "get_corner_coordinates host0 (snd (setup_camera host0 (setup_rendering scene0 out0) True))
          = Inr cc"
    and w: "written_files (trace s') = written_files (trace scene0)
             @ [(\<lparr>parent = parent out0, filename = stem out0 @ ''.json''\<rparr>,
                 JDict [(''fen'', JStr (board_fen board0)),
                        (''white_turn'', JBool True),
                        (''corners'', json_corners cc),
                        (''pieces'', JList pd)])]"
    and st: "filename out0 \<noteq> [] \<longrightarrow>
               stem \<lparr>parent = parent out0, filename = stem out0 @ ''.json''\<rparr> = stem out0"
    by blast
  from w tr have "json_corners cc
                    = JList [JList [JInt 513, JInt 458], JList [JInt 513, JInt 342],
                             JList [JInt 687, JInt 342], JList [JInt 687, JInt 458]]"
    by (simp add: record0_def)
  then have "cc = Some [(513, 458), (513, 342), (687, 342), (687, 458)]"
    by (cases cc) (auto simp: json_corners_def)
  with c ok tr st nm show ?thesis by (intro exI [of _ s']) simp
qed

subsection \<open>Stale objects\<close>

lemma get_corner_coordinates_Inr: "\<exists>cc. get_corner_coordinates h s = Inr cc"
  by (simp add: get_corner_coordinates_def get_coords_corners_char)

lemma render_board_Inl:
  "render_board h s b turn out = Inl e \<longleftrightarrow>
     place_pieces h
       (clear_collection (ensure_collection
          (called Corners_projected (snd (setup_camera h (setup_rendering s out) turn)))))
       (piece_map b) = Inl e"
proof -
  let ?s3 = "snd (setup_camera h (setup_rendering s out) turn)"
  let ?s5 = "clear_collection (ensure_collection (called Corners_projected ?s3))"
  obtain cc where cc: "get_corner_coordinates h ?s3 = Inr cc"
    using get_corner_coordinates_Inr by blast
  show ?thesis
    by (cases "place_pieces h ?s5 (piece_map b)")
       (auto simp: render_board_def CAMERA_STATIC_def LIGHT_STATIC_def Let_def cc)
qed

text \<open>
  Claim C6. Every run of \<open>render_board\<close>, whether it completes or raises, removes the
  objects that are in the collection ``Chess position'' before it adds a piece: the loop
  over the piece map starts in a scene whose collection is empty and from whose objects
  the former members are deleted. After a run that completes the collection holds exactly
  the objects created during the run, one per item of the piece map, and none of the
  former members.
\<close>

theorem render_board_clears_collection:
  "\<exists>s5. collection_objects s5 COLLECTION_NAME = []
     \<and> objects s5 = filter (\<lambda>ob. oid ob \<notin> set (collection_objects s COLLECTION_NAME))
                       (objects s)
     \<and> next_id s5 = next_id s
     \<and> (\<forall>e. render_board h s b turn out = Inl e
              \<longleftrightarrow> place_pieces h s5 (piece_map b) = Inl e)
     \<and> (\<forall>s'. render_board h s b turn out = Inr s' \<longrightarrow>
           (\<exists>pd s6. place_pieces h s5 (piece_map b) = Inr (pd, s6)
                \<and> collection_objects s' COLLECTION_NAME
                    = collection_objects s6 COLLECTION_NAME
                \<and> objects s' = objects s6)
           \<and> collection_objects s' COLLECTION_NAME
               = [next_id s ..< next_id s + length (piece_map b)]
           \<and> (\<exists>new. objects s'
                       = filter (\<lambda>ob. oid ob \<notin> set (collection_objects s COLLECTION_NAME))
                           (objects s) @ new
                     \<and> map oid new = [next_id s ..< next_id s + length (piece_map b)])
           \<and> ((\<forall>i \<in> set (collection_objects s COLLECTION_NAME). i < next_id s) \<longrightarrow>
                 set (collection_objects s' COLLECTION_NAME)
                   \<inter> set (collection_objects s COLLECTION_NAME) = {}))"
proof -
  let ?s4 = "called Corners_projected (snd (setup_camera h (setup_rendering s out) turn))"
  let ?s5 = "clear_collection (ensure_collection ?s4)"
  have e5: "collection_objects ?s5 COLLECTION_NAME = []"
    by (rule clear_collection_empty)
  have o5: "objects ?s5 = filter (\<lambda>ob. oid ob \<notin> set (collection_objects s COLLECTION_NAME))
                              (objects s)"
    by (simp add: clear_collection_fields ensure_collection_fields called_fields
        setup_camera_fields setup_camera_collection setup_rendering_fields)
  have n5: "next_id ?s5 = next_id s"
    by (simp add: clear_collection_fields ensure_collection_fields called_fields
        setup_camera_fields setup_rendering_fields)
  have fails: "\<forall>e. render_board h s b turn out = Inl e
              \<longleftrightarrow> place_pieces h ?s5 (piece_map b) = Inl e"
    by (simp add: render_board_Inl)
  have succeeds: "(\<exists>pd s6. place_pieces h ?s5 (piece_map b) = Inr (pd, s6)
                \<and> collection_objects s' COLLECTION_NAME
                    = collection_objects s6 COLLECTION_NAME
                \<and> objects s' = objects s6)
           \<and> collection_objects s' COLLECTION_NAME
               = [next_id s ..< next_id s + length (piece_map b)]
           \<and> (\<exists>new. objects s'
                       = filter (\<lambda>ob. oid ob \<notin> set (collection_objects s COLLECTION_NAME))
                           (objects s) @ new
                     \<and> map oid new = [next_id s ..< next_id s + length (piece_map b)])
           \<and> ((\<forall>i \<in> set (collection_objects s COLLECTION_NAME). i < next_id s) \<longrightarrow>
                 set (collection_objects s' COLLECTION_NAME)
                   \<inter> set (collection_objects s COLLECTION_NAME) = {})"
    if ok: "render_board h s b turn out = Inr s'" for s'
  proof -
    from ok obtain cc pd s6 where
      pp: "place_pieces h ?s5 (piece_map b) = Inr (pd, s6)"
      and s': "s' = called (Rendered out)
            (called (File_written \<lparr>parent = parent out, filename = stem out @ ''.json''\<rparr>
                       (JDict [(''fen'', JStr (board_fen b)),
                               (''white_turn'', JBool turn),
                               (''corners'', json_corners cc),
                               (''pieces'', JList pd)])) s6)"
      by (rule render_board_Inr)
    have c': "collection_objects s' COLLECTION_NAME = collection_objects s6 COLLECTION_NAME"
      and o': "objects s' = objects s6"
      by (simp_all add: s' called_fields)
    note P = place_pieces_Inr [OF pp, unfolded e5 o5 n5]
    have c: "collection_objects s' COLLECTION_NAME
             = [next_id s ..< next_id s + length (piece_map b)]"
      using P c' by simp
    have n: "\<exists>new. objects s'
                     = filter (\<lambda>ob. oid ob \<notin> set (collection_objects s COLLECTION_NAME))
                         (objects s) @ new
                   \<and> map oid new = [next_id s ..< next_id s + length (piece_map b)]"
      using P o' by simp
    have d: "(\<forall>i \<in> set (collection_objects s COLLECTION_NAME). i < next_id s) \<longrightarrow>
               set (collection_objects s' COLLECTION_NAME)
                 \<inter> set (collection_objects s COLLECTION_NAME) = {}"
      unfolding c by auto
    from pp c' o' c n d show ?thesis by blast
  qed
  from e5 o5 n5 fails succeeds show ?thesis by blast
qed

theorem render_board_clears_collection_witness:
  "\<exists>s'. render_board host0 scene0 board0 True out0 = Inr s'
     \<and> collection_objects scene0 COLLECTION_NAME = [5]
     \<and> collection_objects s' COLLECTION_NAME = [6]
     \<and> map oid (objects s') = [1, 2, 3, 4, 6]"
proof -
  from run0 obtain s' where ok: "render_board host0 scene0 board0 True out0 = Inr s'"
    and o: "map oid (objects s') = [1, 2, 3, 4, 6]"
    by auto
  have old: "collection_objects scene0 COLLECTION_NAME = [5]" "next_id scene0 = 6"
    "length (piece_map board0) = 1"
    by (simp_all add: scene0_def board0_def collection_objects_def)
  from render_board_clears_collection
         [where s = scene0 and h = host0 and b = board0 and turn = True and out = out0] ok
  have "collection_objects s' COLLECTION_NAME = [6]"
    by (auto simp: old)
  with ok o old show ?thesis by (intro exI [of _ s']) simp
qed

subsection \<open>The order of the steps\<close>

lemma all_before_append_clean:
  "\<not> list_ex Q xs \<Longrightarrow> all_before P Q (xs @ ys) = all_before P Q ys"
  by (induction xs) simp_all

lemma not_written_removed: "\<not> list_ex is_rendered (map Object_removed l)"
  by (induction l) simp_all

lemma not_written_pieces:
  "\<not> list_ex is_rendered (concat (map (\<lambda>i. [Object_linked i, Mesh_evaluated i]) l))"
  by (induction l) simp_all

text \<open>
  Claim C7, as the code has it. In a run that completes the steps come in this order: the
  board corners are projected, the stale objects are removed, every piece is instantiated
  and its mesh evaluated for the bounding box right after it, the JSON file is written,
  and the renderer is invoked last. The file is written before the image is rendered.
\<close>

theorem render_board_call_order:
  assumes "render_board h s b turn out = Inr s'"
  shows "\<exists>new data.
           trace s' = trace s @ new
         \<and> new = [Corners_projected]
             @ map Object_removed (collection_objects s COLLECTION_NAME)
             @ concat (map (\<lambda>i. [Object_linked i, Mesh_evaluated i])
                         [next_id s ..< next_id s + length (piece_map b)])
             @ [File_written \<lparr>parent = parent out, filename = stem out @ ''.json''\<rparr> data,
                Rendered out]
         \<and> all_before is_written is_rendered new"
proof -
  from render_board_trace [OF assms] obtain data where
    tr: "trace s' = trace s @ [Corners_projected]
           @ map Object_removed (collection_objects s COLLECTION_NAME)
           @ concat (map (\<lambda>i. [Object_linked i, Mesh_evaluated i])
                       [next_id s ..< next_id s + length (piece_map b)])
           @ [File_written \<lparr>parent = parent out, filename = stem out @ ''.json''\<rparr> data,
              Rendered out]"
    by blast
  have "all_before is_written is_rendered
          (([Corners_projected]
             @ map Object_removed (collection_objects s COLLECTION_NAME)
             @ concat (map (\<lambda>i. [Object_linked i, Mesh_evaluated i])
                         [next_id s ..< next_id s + length (piece_map b)]))
           @ [File_written \<lparr>parent = parent out, filename = stem out @ ''.json''\<rparr> data,
              Rendered out])"
    by (subst all_before_append_clean)
       (simp_all add: not_written_removed not_written_pieces)
  with tr show ?thesis by simp
qed

theorem render_board_call_order_witness:
  "\<exists>s' data. render_board host0 scene0 board0 True out0 = Inr s'
     \<and> trace s' = [Corners_projected, Object_removed 5, Object_linked 6, Mesh_evaluated 6,
                   File_written \<lparr>parent = ''../render'', filename = ''0000.json''\<rparr> data,
                   Rendered out0]"
proof -
  from run0 obtain s' where ok: "render_board host0 scene0 board0 True out0 = Inr s'"
    by auto
  have old: "collection_objects scene0 COLLECTION_NAME = [5]" "next_id scene0 = 6"
    "length (piece_map board0) = 1" "trace scene0 = []"
    "parent out0 = ''../render''" "stem out0 = ''0000''"
    by (simp_all add: scene0_def board0_def out0_def stem_def collection_objects_def)
  from render_board_call_order [OF ok] obtain data where
    "trace s' = [Corners_projected, Object_removed 5, Object_linked 6, Mesh_evaluated 6,
                   File_written \<lparr>parent = ''../render'', filename = ''0000.json''\<rparr> data,
                   Rendered out0]"
    by (auto simp: old)
  with ok show ?thesis by (intro exI [of _ s'] exI [of _ data]) simp
qed

text \<open>
  The order that claim C7 states does not hold: on the small scene the file is written
  before the renderer runs, and the corners are projected before the piece is instantiated.
\<close>

theorem render_board_order_counterexample:
  "map_sum id trace (render_board host0 scene0 board0 True out0)
     = Inr [Corners_projected, Object_removed 5, Object_linked 6, Mesh_evaluated 6,
            File_written \<lparr>parent = ''../render'', filename = ''0000.json''\<rparr> record0,
            Rendered out0]
   \<and> \<not> all_before is_rendered is_written
         [Corners_projected, Object_removed 5, Object_linked 6, Mesh_evaluated 6,
          File_written \<lparr>parent = ''../render'', filename = ''0000.json''\<rparr> record0,
          Rendered out0]
   \<and> \<not> all_before is_linked is_projected
         [Corners_projected, Object_removed 5, Object_linked 6, Mesh_evaluated 6,
          File_written \<lparr>parent = ''../render'', filename = ''0000.json''\<rparr> record0,
          Rendered out0]"
proof -
  from run0 obtain s' where "render_board host0 scene0 board0 True out0 = Inr s'"
    and "trace s' = [Corners_projected, Object_removed 5, Object_linked 6, Mesh_evaluated 6,
                   File_written \<lparr>parent = ''../render'', filename = ''0000.json''\<rparr> record0,
                   Rendered out0]"
    by auto
  then show ?thesis by simp
qed

subsection \<open>What the record says about the scene configuration\<close>

lemma json_corners_not_dict: "JDict d \<noteq> json_corners cc"
  by (cases cc) (simp_all add: json_corners_def)

text \<open>
  Claim C8, as the code has it. The record written for a sample has the keys \<open>fen\<close>,
  \<open>white_turn\<close>, \<open>corners\<close> and \<open>pieces\<close> and no other; the dictionary of camera
  parameters that \<open>setup_camera\<close> returns is not one of its values. The scene
  configuration is not reported.
\<close>

theorem render_board_record_keys:
  assumes "render_board h s b turn out = Inr s'"
  shows "\<exists>jp data.
           written_files (trace s') = written_files (trace s) @ [(jp, data)]
         \<and> dict_keys data = [''fen'', ''white_turn'', ''corners'', ''pieces'']
         \<and> fst (setup_camera h (setup_rendering s out) turn) \<notin> set (dict_values data)"
proof -
  from assms obtain cc pd s6 where
    pp: "place_pieces h
       (clear_collection (ensure_collection
          (called Corners_projected (snd (setup_camera h (setup_rendering s out) turn)))))
       (piece_map b) = Inr (pd, s6)"
    and s': "s' = called (Rendered out)
            (called (File_written \<lparr>parent = parent out, filename = stem out @ ''.json''\<rparr>
                       (JDict [(''fen'', JStr (board_fen b)),
                               (''white_turn'', JBool turn),
                               (''corners'', json_corners cc),
                               (''pieces'', JList pd)])) s6)"
    by (rule render_board_Inr)
  let ?data = "JDict [(''fen'', JStr (board_fen b)), (''white_turn'', JBool turn),
                      (''corners'', json_corners cc), (''pieces'', JList pd)]"
  have tr: "trace s6 = trace s @ [Corners_projected]
           @ map Object_removed (collection_objects s COLLECTION_NAME)
           @ concat (map (\<lambda>i. [Object_linked i, Mesh_evaluated i])
                       [next_id s ..< next_id s + length (piece_map b)])"
    using place_pieces_Inr [OF pp]
    by (simp add: clear_collection_fields ensure_collection_fields called_fields
        setup_camera_fields setup_camera_collection setup_rendering_fields)
  have w6: "written_files (trace s6) = written_files (trace s)"
    by (simp add: tr written_files_append written_files_removed written_files_pieces)
  have w: "written_files (trace s') = written_files (trace s)
             @ [(\<lparr>parent = parent out, filename = stem out @ ''.json''\<rparr>, ?data)]"
    by (simp add: s' called_fields written_files_append w6)
  have k: "dict_keys ?data = [''fen'', ''white_turn'', ''corners'', ''pieces'']"
    by simp
  have v: "fst (setup_camera h (setup_rendering s out) turn) \<notin> set (dict_values ?data)"
    by (simp add: setup_camera_def uniform_def Let_def json_corners_not_dict)
  from w k v show ?thesis by blast
qed

theorem render_board_record_keys_witness:
  "\<exists>s'. render_board host0 scene0 board0 True out0 = Inr s'
     \<and> written_files (trace s') = [(\<lparr>parent = ''../render'', filename = ''0000.json''\<rparr>, record0)]
     \<and> dict_keys record0 = [''fen'', ''white_turn'', ''corners'', ''pieces'']"
proof -
  from run0 obtain s' where ok: "render_board host0 scene0 board0 True out0 = Inr s'"
    and tr: "trace s' = [Corners_projected, Object_removed 5, Object_linked 6, Mesh_evaluated 6,
                   File_written \<lparr>parent = ''../render'', filename = ''0000.json''\<rparr> record0,
                   Rendered out0]"
    by auto
  from render_board_record_keys [OF ok] tr
  have "dict_keys record0 = [''fen'', ''white_turn'', ''corners'', ''pieces'']"
    by (auto simp: scene0_def)
  with ok tr show ?thesis by (intro exI [of _ s']) simp
qed

text \<open>
  On the small scene the camera parameters are sampled and the record written does not
  contain them, against claim C8.
\<close>

theorem camera_parameters_not_in_record:
  "fst (setup_camera host0 (setup_rendering scene0 out0) True)
     = JDict [(''azimuth'', JNum 0),
              (''location'', JList [JNum (29 / 4), JNum 0, JNum (29 / 2)])]
   \<and> map_sum id (written_files \<circ> trace) (render_board host0 scene0 board0 True out0)
     = Inr [(\<lparr>parent = ''../render'', filename = ''0000.json''\<rparr>, record0)]
   \<and> JDict [(''azimuth'', JNum 0),
            (''location'', JList [JNum (29 / 4), JNum 0, JNum (29 / 2)])]
       \<notin> set (dict_values record0)
   \<and> dict_keys record0 = [''fen'', ''white_turn'', ''corners'', ''pieces'']"
proof -
  have p: "fst (setup_camera host0 (setup_rendering scene0 out0) True)
     = JDict [(''azimuth'', JNum 0),
              (''location'', JList [JNum (29 / 4), JNum 0, JNum (29 / 2)])]"
    by (simp add: setup_camera_def setup_rendering_def uniform_def deg2rad_def input_defs
        SQUARE_LENGTH_def BOARD_SIZE_def BOARD_MARGIN_def Let_def)
  from run0 obtain s' where "render_board host0 scene0 board0 True out0 = Inr s'"
    and "trace s' = [Corners_projected, Object_removed 5, Object_linked 6, Mesh_evaluated 6,
                   File_written \<lparr>parent = ''../render'', filename = ''0000.json''\<rparr> record0,
                   Rendered out0]"
    by auto
  then have w: "map_sum id (written_files \<circ> trace) (render_board host0 scene0 board0 True out0)
     = Inr [(\<lparr>parent = ''../render'', filename = ''0000.json''\<rparr>, record0)]"
    by simp
  have v: "JDict [(''azimuth'', JNum 0),
            (''location'', JList [JNum (29 / 4), JNum 0, JNum (29 / 2)])]
       \<notin> set (dict_values record0)"
    and k: "dict_keys record0 = [''fen'', ''white_turn'', ''corners'', ''pieces'']"
    by (simp_all add: record0_def)
  from p w v k show ?thesis by simp
qed

subsection \<open>What is sampled for a sample\<close>

text \<open>
  Claim C4, as the code has it. A run of \<open>render_board\<close> draws exactly three random
  numbers, those of \<open>setup_camera\<close> (azimuth, radius, height), and leaves the camera where
  \<open>setup_camera\<close> puts it. \<open>LIGHT_STATIC\<close> is \<open>True\<close>, so \<open>setup_lighting\<close> is not
  called: every object outside the collection, the lights among them, is in the scene
  after the run exactly as it was before.
\<close>

theorem render_board_samples_camera_only:
  assumes "render_board h s b turn out = Inr s'"
  shows "rng_pos s' = rng_pos s + 3
         \<and> camera s' = camera (snd (setup_camera h s turn))
         \<and> (\<forall>ob \<in> set (objects s).
               oid ob \<notin> set (collection_objects s COLLECTION_NAME) \<longrightarrow> ob \<in> set (objects s'))"
proof -
  let ?s3 = "snd (setup_camera h (setup_rendering s out) turn)"
  let ?s5 = "clear_collection (ensure_collection (called Corners_projected ?s3))"
  from assms obtain cc pd s6 where
    pp: "place_pieces h ?s5 (piece_map b) = Inr (pd, s6)"
    and s': "s' = called (Rendered out)
            (called (File_written \<lparr>parent = parent out, filename = stem out @ ''.json''\<rparr>
                       (JDict [(''fen'', JStr (board_fen b)),
                               (''white_turn'', JBool turn),
                               (''corners'', json_corners cc),
                               (''pieces'', JList pd)])) s6)"
    by (rule render_board_Inr)
  note P = place_pieces_Inr [OF pp]
  have r: "rng_pos s' = rng_pos s + 3"
    using P
    by (simp add: s' called_fields clear_collection_fields ensure_collection_fields
        setup_camera_fields setup_rendering_fields)
  have "camera ?s3 = camera (snd (setup_camera h s turn))"
    by (rule setup_camera_camera) (simp_all add: setup_rendering_fields)
  then have c: "camera s' = camera (snd (setup_camera h s turn))"
    using P
    by (simp add: s' called_fields clear_collection_fields ensure_collection_fields)
  from P obtain new where
    "objects s6 = objects ?s5 @ new"
    by blast
  then have "objects s' = filter (\<lambda>ob. oid ob \<notin> set (collection_objects s COLLECTION_NAME))
                            (objects s) @ new"
    by (simp add: s' clear_collection_fields ensure_collection_fields called_fields
        setup_camera_fields setup_camera_collection setup_rendering_fields)
  then have o: "\<forall>ob \<in> set (objects s).
               oid ob \<notin> set (collection_objects s COLLECTION_NAME) \<longrightarrow> ob \<in> set (objects s')"
    by simp
  from r c o show ?thesis by blast
qed

theorem render_board_samples_camera_only_witness:
  "\<exists>s'. render_board host0 scene0 board0 True out0 = Inr s'
     \<and> rng_pos s' = 3
     \<and> location (camera s') = (29 / 4, 0, 29 / 2)
     \<and> light0 2 ''Camera flash light'' \<in> set (objects s')
     \<and> light0 3 ''Spot 1'' \<in> set (objects s')
     \<and> light0 4 ''Spot 2'' \<in> set (objects s')"
proof -
  from run0 obtain s' where ok: "render_board host0 scene0 board0 True out0 = Inr s'"
    and loc: "location (camera s') = (29 / 4, 0, 29 / 2)"
    by auto
  have old: "collection_objects scene0 COLLECTION_NAME = [5]" "rng_pos scene0 = 0"
    "objects scene0 = [white_pawn_model, light0 2 ''Camera flash light'', light0 3 ''Spot 1'',
                light0 4 ''Spot 2'', stale_piece]"
    by (simp_all add: scene0_def collection_objects_def)
  have ids: "oid (light0 2 ''Camera flash light'') = 2" "oid (light0 3 ''Spot 1'') = 3"
    "oid (light0 4 ''Spot 2'') = 4"
    by (simp_all add: light0_def)
  from render_board_samples_camera_only [OF ok]
  have "rng_pos s' = 3 \<and> light0 2 ''Camera flash light'' \<in> set (objects s')
     \<and> light0 3 ''Spot 1'' \<in> set (objects s') \<and> light0 4 ''Spot 2'' \<in> set (objects s')"
    by (simp add: old ids)
  with ok loc show ?thesis by (intro exI [of _ s']) simp
qed

text \<open>
  On the small scene the three lights are switched off before the run and still switched
  off after it, and three random numbers were drawn; \<open>setup_lighting\<close> would have
  switched the flash on and drawn eight more. Claim C4 does not hold.
\<close>

theorem lighting_not_randomized:
  "map_sum id light_objects (render_board host0 scene0 board0 True out0)
     = Inr [Some (light0 2 ''Camera flash light''), Some (light0 3 ''Spot 1''),
            Some (light0 4 ''Spot 2'')]
   \<and> hide_render (light0 2 ''Camera flash light'')
   \<and> hide_render (light0 3 ''Spot 1'')
   \<and> hide_render (light0 4 ''Spot 2'')
   \<and> map_sum id rng_pos (render_board host0 scene0 board0 True out0) = Inr 3
   \<and> map_sum id (map (map_option hide_render) \<circ> light_objects \<circ> snd)
       (setup_lighting host0 (snd (setup_camera host0 (setup_rendering scene0 out0) True)))
     = Inr [Some False, Some True, Some True]
   \<and> map_sum id (rng_pos \<circ> snd)
       (setup_lighting host0 (snd (setup_camera host0 (setup_rendering scene0 out0) True)))
     = Inr 11"
proof -
  from run0 obtain s' where "render_board host0 scene0 board0 True out0 = Inr s'"
    and "light_objects s' = [Some (light0 2 ''Camera flash light''), Some (light0 3 ''Spot 1''),
                            Some (light0 4 ''Spot 2'')]"
    and "rng_pos s' = 3"
    by auto
  then have a: "map_sum id light_objects (render_board host0 scene0 board0 True out0)
     = Inr [Some (light0 2 ''Camera flash light''), Some (light0 3 ''Spot 1''),
            Some (light0 4 ''Spot 2'')]"
    and b: "map_sum id rng_pos (render_board host0 scene0 board0 True out0) = Inr 3"
    by simp_all
  have h: "hide_render (light0 2 ''Camera flash light'')" "hide_render (light0 3 ''Spot 1'')"
    "hide_render (light0 4 ''Spot 2'')"
    by (simp_all add: light0_def)
  have l: "map_sum id (map (map_option hide_render) \<circ> light_objects \<circ> snd)
       (setup_lighting host0 (snd (setup_camera host0 (setup_rendering scene0 out0) True)))
     = Inr [Some False, Some True, Some True]"
    by (simp add: setup_lighting_def setup_spotlight_def objects_item_def objects_get_def
        modify_object_def rand_def uniform_def setup_camera_def setup_rendering_def
        point_to_def light_objects_def input_defs Let_def)
  have n: "map_sum id (rng_pos \<circ> snd)
       (setup_lighting host0 (snd (setup_camera host0 (setup_rendering scene0 out0) True)))
     = Inr 11"
    by (simp add: setup_lighting_def setup_spotlight_def objects_item_def objects_get_def
        modify_object_def rand_def uniform_def setup_camera_def setup_rendering_def
        point_to_def input_defs Let_def)
  from a h b l n show ?thesis by simp
qed

end
